theory Spec2Isabelle
  imports Complex_Main "HOL-Library.AList"
begin

section \<open>Shared vocabulary\<close>

text \<open>
  The repository is four Python scripts: \<^verbatim>\<open>pyalex-test.py\<close> (OpenAlex cursor pagination),
  \<^verbatim>\<open>get-pubmed.py\<close> (NCBI E-utilities, offset pagination with a progress file),
  \<^verbatim>\<open>main.py\<close> (metapub offset pagination into a text file) and
  \<^verbatim>\<open>analyze_normalized_citations.py\<close> (statistics over the OpenAlex output).
  Exceptions are values of \<open>py_error\<close>; a remote answer is a status code and a body that
  either parses as JSON of the expected object type or does not parse at all. In the
  typed JSON views below a field of type \<open>option\<close> is \<open>None\<close> when the key is absent
  (for leaf fields read by a single \<^verbatim>\<open>.get\<close>, also when it is null).
\<close>

datatype py_error =
    JSONDecodeError | HTTPError int | TypeError | ValueError | StatisticsError
  | OverflowError | ZeroDivisionError

record 'a response =
  status_code :: int
  json_body :: "'a option"

section \<open>pyalex-test.py\<close>

record author_json =
  display_name :: "string option"
  a_id :: "string option"
  a_orcid :: "string option"

record authorship_json =
  author :: "author_json option"

record work_json =
  w_title :: "string option"
  w_publication_year :: "int option"
  w_cited_by_count :: "int option"
  authorships :: "authorship_json list option"

record meta_json =
  next_cursor :: "string option"

record page_json =
  results :: "work_json list option"
  meta :: "meta_json option"

record author_record =
  name :: "string option"
  author_id :: "string option"
  orcid :: "string option"

record work_record =
  title :: "string option"
  publication_year :: "int option"
  cited_by_count :: "int option"
  authors :: "author_record list"

text \<open>Lines 45-52: \<^verbatim>\<open>author.get("author", {}).get(...)\<close> for one authorship.\<close>

definition build_author :: "authorship_json \<Rightarrow> author_record" where
  "build_author a =
     (case author a of
        None \<Rightarrow> \<lparr>name = None, author_id = None, orcid = None\<rparr>
      | Some au \<Rightarrow> \<lparr>name = display_name au, author_id = a_id au, orcid = a_orcid au\<rparr>)"

text \<open>Lines 41-53: the record built for one work of the page.\<close>

definition build_record :: "work_json \<Rightarrow> work_record" where
  "build_record work =
     \<lparr>title = w_title work,
      publication_year = w_publication_year work,
      cited_by_count = w_cited_by_count work,
      authors = map build_author (case authorships work of None \<Rightarrow> [] | Some as \<Rightarrow> as)\<rparr>"

text \<open>
  What the script does to the outside world, in order: the GET it issues (with the cursor
  it sends), the lines it prints and the sleeps. The output file is kept apart, as the
  value last dumped to it (\<open>None\<close>: the file does not exist).
\<close>

datatype event =
    Request string
  | PrintStarting nat
  | PrintError int
  | PrintSaved nat nat
  | PrintNoMorePages
  | PrintFinished
  | Sleep

record run_result =
  disk :: "work_record list option"
  trace :: "event list"
  raised :: "py_error option"

text \<open>Line 37, \<^verbatim>\<open>data.get("results", [])\<close>, and line 65,
  \<^verbatim>\<open>data.get("meta", {}).get("next_cursor")\<close>.\<close>

definition get_results :: "page_json \<Rightarrow> work_json list" where
  "get_results data = (case results data of None \<Rightarrow> [] | Some rs \<Rightarrow> rs)"

definition get_next_cursor :: "page_json \<Rightarrow> string option" where
  "get_next_cursor data = (case meta data of None \<Rightarrow> None | Some m \<Rightarrow> next_cursor m)"

text \<open>
  Lines 31-71, one pass through the body of the \<^verbatim>\<open>while True\<close> loop. It either
  leaves the loop (\<open>Break\<close>, with what the script has done when the process ends) or goes
  round again (\<open>Continue\<close>, with the new cursor, the accumulated list, the file and the
  trace). A status other than 200 prints the status and breaks, after which the script
  prints \<^verbatim>\<open>Finished.\<close> and ends normally. A body that is not JSON makes
  \<^verbatim>\<open>response.json()\<close> raise, which ends the process with that error.
  \<^verbatim>\<open>not next_cursor\<close> holds for a missing or null cursor and for the empty string.
\<close>

datatype step_result =
    Break run_result
  | Continue string "work_record list" "work_record list option" "event list"

definition loop_body ::
  "(string \<Rightarrow> page_json response) \<Rightarrow> string \<Rightarrow> work_record list \<Rightarrow>
   work_record list option \<Rightarrow> event list \<Rightarrow> step_result" where
  "loop_body requests_get cursor all_works output_file tr =
     (let response = requests_get cursor;
          tr1 = tr @ [Request cursor]
      in if status_code response \<noteq> 200 then
           Break \<lparr>disk = output_file,
                  trace = tr1 @ [PrintError (status_code response), PrintFinished],
                  raised = None\<rparr>
         else
           (case json_body response of
              None \<Rightarrow> Break \<lparr>disk = output_file, trace = tr1, raised = Some JSONDecodeError\<rparr>
            | Some data \<Rightarrow>
                (let new_records = map build_record (get_results data);
                     all_works' = all_works @ new_records;
                     tr2 = tr1 @ [PrintSaved (length new_records) (length all_works')]
                 in (case get_next_cursor data of
                       None \<Rightarrow>
                         Break \<lparr>disk = Some all_works',
                                trace = tr2 @ [PrintNoMorePages, PrintFinished],
                                raised = None\<rparr>
                     | Some nxt \<Rightarrow>
                         if nxt = [] then
                           Break \<lparr>disk = Some all_works',
                                  trace = tr2 @ [PrintNoMorePages, PrintFinished],
                                  raised = None\<rparr>
                         else Continue nxt all_works' (Some all_works') (tr2 @ [Sleep])))))"

text \<open>
  The loop. The first argument bounds the number of passes; \<open>None\<close> means the loop is
  still running when the bound is reached.
\<close>

fun main_loop ::
  "nat \<Rightarrow> (string \<Rightarrow> page_json response) \<Rightarrow> string \<Rightarrow> work_record list \<Rightarrow>
   work_record list option \<Rightarrow> event list \<Rightarrow> run_result option" where
  "main_loop 0 requests_get cursor all_works output_file tr = None"
| "main_loop (Suc fuel) requests_get cursor all_works output_file tr =
     (case loop_body requests_get cursor all_works output_file tr of
        Break r \<Rightarrow> Some r
      | Continue nxt all_works' output_file' tr' \<Rightarrow>
          main_loop fuel requests_get nxt all_works' output_file' tr')"

text \<open>The file as one pass of the loop leaves it.\<close>

fun file_after :: "step_result \<Rightarrow> work_record list option" where
  "file_after (Break r) = disk r"
| "file_after (Continue nxt all_works output_file tr) = output_file"

text \<open>Lines 21-28: resume support, then the loop from the cursor \<^verbatim>\<open>"*"\<close>.\<close>

definition load_all_works :: "work_record list option \<Rightarrow> work_record list" where
  "load_all_works output_file = (case output_file of None \<Rightarrow> [] | Some ws \<Rightarrow> ws)"

definition pyalex_script ::
  "nat \<Rightarrow> (string \<Rightarrow> page_json response) \<Rightarrow> work_record list option \<Rightarrow> run_result option" where
  "pyalex_script fuel requests_get output_file =
     (let all_works = load_all_works output_file
      in main_loop fuel requests_get ''*'' all_works output_file
           [PrintStarting (length all_works)])"

section \<open>main.py\<close>

text \<open>
  \<^verbatim>\<open>fetch.pmids_for_query\<close> is the remote source: from the offset \<^verbatim>\<open>retstart\<close> to a
  list of identifiers, or to Python's \<^verbatim>\<open>None\<close>. The text file is the list of its lines;
  it is opened in append mode, so a missing file is the empty list.
\<close>

datatype pm_event = Query int | PrintSuccess | Sleep5

record pmid_result =
  pmids_file :: "string list"
  pm_trace :: "pm_event list"
  pm_raised :: "py_error option"

text \<open>
  Lines 19-23: every batch accumulated so far is written again, after what the file
  holds. Iterating over a batch that is \<^verbatim>\<open>None\<close> raises \<^verbatim>\<open>TypeError\<close>; the lines
  written before that stay in the file.
\<close>

fun write_batches :: "string list option list \<Rightarrow> string list \<Rightarrow> py_error option \<times> string list" where
  "write_batches [] f = (None, f)"
| "write_batches (None # articles) f = (Some TypeError, f)"
| "write_batches (Some pmid_batch # articles) f = write_batches articles (f @ pmid_batch)"

datatype pm_step =
    PmBreak pmid_result
  | PmContinue int "string list option list" "string list" "pm_event list"

text \<open>Lines 13-29, one pass through the loop body.\<close>

definition pmid_loop_body ::
  "(int \<Rightarrow> string list option) \<Rightarrow> int \<Rightarrow> string list option list \<Rightarrow> string list \<Rightarrow>
   pm_event list \<Rightarrow> pm_step" where
  "pmid_loop_body pmids_for_query start_count articles f tr =
     (let articles_batch = pmids_for_query start_count;
          tr1 = tr @ [Query start_count] @
                (if articles_batch \<noteq> None \<and> articles_batch \<noteq> Some [] then [PrintSuccess] else []);
          articles' = articles @ [articles_batch]
      in (case write_batches articles' f of
            (Some e, f') \<Rightarrow> PmBreak \<lparr>pmids_file = f', pm_trace = tr1, pm_raised = Some e\<rparr>
          | (None, f') \<Rightarrow>
              if articles_batch \<noteq> None then
                PmContinue (start_count + 500) articles' f' (tr1 @ [Sleep5])
              else PmBreak \<lparr>pmids_file = f', pm_trace = tr1, pm_raised = None\<rparr>))"

fun pmid_loop ::
  "nat \<Rightarrow> (int \<Rightarrow> string list option) \<Rightarrow> int \<Rightarrow> string list option list \<Rightarrow> string list \<Rightarrow>
   pm_event list \<Rightarrow> pmid_result option" where
  "pmid_loop 0 pmids_for_query start_count articles f tr = None"
| "pmid_loop (Suc fuel) pmids_for_query start_count articles f tr =
     (case pmid_loop_body pmids_for_query start_count articles f tr of
        PmBreak r \<Rightarrow> Some r
      | PmContinue start_count' articles' f' tr' \<Rightarrow>
          pmid_loop fuel pmids_for_query start_count' articles' f' tr')"

text \<open>The file as one pass of the loop leaves it.\<close>

fun pmids_file_after :: "pm_step \<Rightarrow> string list" where
  "pmids_file_after (PmBreak r) = pmids_file r"
| "pmids_file_after (PmContinue start_count articles f tr) = f"

definition pmid_script :: "nat \<Rightarrow> (int \<Rightarrow> string list option) \<Rightarrow> string list \<Rightarrow> pmid_result option" where
  "pmid_script fuel pmids_for_query f = pmid_loop fuel pmids_for_query 30294 [] f []"

section \<open>get-pubmed.py\<close>

text \<open>
  The E-utilities answers, typed: the \<^verbatim>\<open>count\<close> of a search result is the integer that
  \<^verbatim>\<open>int(...)\<close> reads from it, the \<^verbatim>\<open>result\<close> of a summary is the dictionary from
  identifier to article data, in the order of its items (it also holds the key
  \<^verbatim>\<open>uids\<close>). The article data is not inspected by the script and is left abstract.
\<close>

record esearchresult_json =
  es_count :: "int option"
  webenv :: "string option"
  querykey :: "string option"
  idlist :: "string list option"

record search_json =
  esearchresult :: "esearchresult_json option"

record 'a summary_json =
  result :: "(string \<times> 'a) list option"

text \<open>
  The remote service: \<^verbatim>\<open>esearch.fcgi\<close> by term, \<^verbatim>\<open>retmax\<close> and \<^verbatim>\<open>retstart\<close>, and
  \<^verbatim>\<open>esummary.fcgi\<close> by the identifiers joined into its \<^verbatim>\<open>id\<close> parameter.
\<close>

record 'a eutils =
  esearch :: "string \<Rightarrow> int \<Rightarrow> int \<Rightarrow> search_json response"
  esummary :: "string list \<Rightarrow> 'a summary_json response"

text \<open>
  Lines 68-72 (and 108-112): status 200 gives the parsed body; otherwise
  \<^verbatim>\<open>raise_for_status()\<close> raises for a status from 400 to 599, and for any other status
  the method falls off its end and returns \<^verbatim>\<open>None\<close> (the inner \<open>None\<close> here).
\<close>

definition json_or_raise :: "'b response \<Rightarrow> py_error + 'b option" where
  "json_or_raise response =
     (if status_code response = 200 then
        (case json_body response of None \<Rightarrow> Inl JSONDecodeError | Some j \<Rightarrow> Inr (Some j))
      else if 400 \<le> status_code response \<and> status_code response < 600 then
        Inl (HTTPError (status_code response))
      else Inr None)"

definition search :: "'a eutils \<Rightarrow> string \<Rightarrow> int \<Rightarrow> int \<Rightarrow> py_error + search_json option" where
  "search searcher query retmax retstart = json_or_raise (esearch searcher query retmax retstart)"

text \<open>Lines 74-112, called with \<^verbatim>\<open>id_list\<close> only (no WebEnv, no QueryKey).\<close>

definition fetch_article_details :: "'a eutils \<Rightarrow> string list \<Rightarrow> py_error + 'a summary_json option" where
  "fetch_article_details searcher id_list =
     (if id_list \<noteq> [] then json_or_raise (esummary searcher id_list)
      else Inr (Some \<lparr>result = None\<rparr>))"

text \<open>
  \<^verbatim>\<open>all_articles\<close> is a Python dictionary: keys are unique, an assignment to a present
  key replaces the value where it stands and an assignment to a new key goes to the
  end. That is \<open>AList.update\<close> on an association list. The progress file holds what
  was last dumped to it (\<open>None\<close>: missing, or not JSON).
\<close>

record 'a progress =
  p_searched_combos :: "string list"
  p_articles :: "(string \<times> 'a) list"

record 'a search_state =
  s_searched_combos :: "string list"
  s_all_articles :: "(string \<times> 'a) list"
  s_progress_file :: "'a progress option"

text \<open>Lines 273-277.\<close>

definition add_articles :: "(string \<times> 'a) list \<Rightarrow> (string \<times> 'a) list \<Rightarrow> (string \<times> 'a) list" where
  "add_articles items all_articles =
     fold (\<lambda>(article_id, article_data) acc.
             if article_id \<noteq> ''uids'' then AList.update article_id article_data acc else acc)
          items all_articles"

text \<open>
  Lines 256-277, the part of the \<^verbatim>\<open>try\<close> block that can raise: the new value of
  \<^verbatim>\<open>all_articles\<close>, or the exception. A membership test on \<^verbatim>\<open>None\<close> raises
  \<^verbatim>\<open>TypeError\<close>.
\<close>

definition try_batch ::
  "'a eutils \<Rightarrow> string \<Rightarrow> int \<Rightarrow> int \<Rightarrow> (string \<times> 'a) list \<Rightarrow> py_error + (string \<times> 'a) list" where
  "try_batch searcher query retmax start all_articles =
     (case search searcher query retmax start of
        Inl e \<Rightarrow> Inl e
      | Inr None \<Rightarrow> Inl TypeError
      | Inr (Some search_batch) \<Rightarrow>
          (case esearchresult search_batch of
             None \<Rightarrow> Inr all_articles
           | Some esr \<Rightarrow>
               (case idlist esr of
                  None \<Rightarrow> Inr all_articles
                | Some id_list \<Rightarrow>
                    if id_list = [] then Inr all_articles
                    else
                      (case fetch_article_details searcher id_list of
                         Inl e \<Rightarrow> Inl e
                       | Inr None \<Rightarrow> Inl TypeError
                       | Inr (Some details) \<Rightarrow>
                           (case result details of
                              None \<Rightarrow> Inr all_articles
                            | Some items \<Rightarrow> Inr (add_articles items all_articles))))))"

text \<open>
  Lines 250-303, one pass of the batch loop. After the \<^verbatim>\<open>try\<close> part the combo key is
  appended and the progress file written; the \<^verbatim>\<open>except\<close> branch writes the progress file
  without appending. Neither branch leaves the loop.
\<close>

definition batch_step ::
  "'a eutils \<Rightarrow> string \<Rightarrow> string \<Rightarrow> int \<Rightarrow> int \<Rightarrow> int \<Rightarrow> 'a search_state \<Rightarrow> 'a search_state" where
  "batch_step searcher query combo_key total_results batch_size start st =
     (let retmax = min batch_size (total_results - start)
      in (case try_batch searcher query retmax start (s_all_articles st) of
            Inr all_articles' \<Rightarrow>
              (let searched_combos' = s_searched_combos st @ [combo_key]
               in \<lparr>s_searched_combos = searched_combos',
                   s_all_articles = all_articles',
                   s_progress_file =
                     Some \<lparr>p_searched_combos = searched_combos', p_articles = all_articles'\<rparr>\<rparr>)
          | Inl e \<Rightarrow>
              st\<lparr>s_progress_file :=
                   Some \<lparr>p_searched_combos = s_searched_combos st,
                         p_articles = s_all_articles st\<rparr>\<rparr>))"

text \<open>
  \<^verbatim>\<open>range(0, stop, step)\<close>: a zero step raises \<^verbatim>\<open>ValueError\<close>; otherwise the multiples
  of the step from 0 up to (for a negative step, down to) but not including \<open>stop\<close>.
\<close>

definition range_len :: "int \<Rightarrow> int \<Rightarrow> nat" where
  "range_len stop step =
     (if 0 < step then (if 0 < stop then nat ((stop - 1) div step + 1) else 0)
      else (if stop < 0 then nat ((- stop - 1) div (- step) + 1) else 0))"

definition py_range :: "int \<Rightarrow> int \<Rightarrow> py_error + int list" where
  "py_range stop step =
     (if step = 0 then Inl ValueError
      else Inr (map (\<lambda>k. int k * step) [0..<range_len stop step]))"

definition truthy :: "string option \<Rightarrow> bool" where
  "truthy s = (s \<noteq> None \<and> s \<noteq> Some [])"

text \<open>
  Lines 223-314, one pass of the loop over the terms. The first search is outside any
  \<^verbatim>\<open>try\<close>, so its exception leaves the function; so does the \<^verbatim>\<open>ValueError\<close> of
  \<^verbatim>\<open>range\<close>. Both happen before this pass has changed anything.
\<close>

definition process_term ::
  "'a eutils \<Rightarrow> int \<Rightarrow> string \<Rightarrow> 'a search_state \<Rightarrow> py_error + 'a search_state" where
  "process_term searcher batch_size ml_term st =
     (let combo_key = ml_term
      in if combo_key \<in> set (s_searched_combos st) then Inr st
         else
           (let query = ml_term
            in (case search searcher query 0 0 of
                  Inl e \<Rightarrow> Inl e
                | Inr None \<Rightarrow> Inl TypeError
                | Inr (Some initial_results) \<Rightarrow>
                    (case
                       (case esearchresult initial_results of
                          None \<Rightarrow> Inr st
                        | Some esr \<Rightarrow>
                            (case es_count esr of
                               None \<Rightarrow> Inr st
                             | Some total_results \<Rightarrow>
                                 if truthy (webenv esr) \<and> truthy (querykey esr) then
                                   (case py_range total_results batch_size of
                                      Inl e \<Rightarrow> Inl e
                                    | Inr starts \<Rightarrow>
                                        Inr (fold (batch_step searcher query combo_key
                                                     total_results batch_size) starts st))
                                 else Inr st))
                     of
                       Inl e \<Rightarrow> Inl e
                     | Inr st1 \<Rightarrow>
                         (let searched_combos' = s_searched_combos st1 @ [combo_key]
                          in Inr (st1\<lparr>s_searched_combos := searched_combos',
                                      s_progress_file :=
                                        Some \<lparr>p_searched_combos = searched_combos',
                                              p_articles = s_all_articles st1\<rparr>\<rparr>))))))"

text \<open>The loop over the terms stops at the first exception, with the state it had then.\<close>

fun process_terms ::
  "'a eutils \<Rightarrow> int \<Rightarrow> string list \<Rightarrow> 'a search_state \<Rightarrow> py_error option \<times> 'a search_state" where
  "process_terms searcher batch_size [] st = (None, st)"
| "process_terms searcher batch_size (ml_term # terms) st =
     (case process_term searcher batch_size ml_term st of
        Inl e \<Rightarrow> (Some e, st)
      | Inr st' \<Rightarrow> process_terms searcher batch_size terms st')"

definition ml_terms :: "string list" where
  "ml_terms = [''Artificial Intelligence'']"

text \<open>
  Lines 180-325. What a call leaves behind: the dictionary it returns or the exception
  that leaves it, the progress file, and the output file (the list of the values, written
  only when the function gets to its end).
\<close>

record 'a search_outcome =
  returned :: "py_error + (string \<times> 'a) list"
  progress_after :: "'a progress option"
  output_after :: "'a list option"

definition load_progress :: "'a progress option \<Rightarrow> 'a search_state" where
  "load_progress f =
     (case f of
        None \<Rightarrow> \<lparr>s_searched_combos = [], s_all_articles = [], s_progress_file = None\<rparr>
      | Some progress_data \<Rightarrow>
          \<lparr>s_searched_combos = p_searched_combos progress_data,
           s_all_articles = p_articles progress_data,
           s_progress_file = f\<rparr>)"

definition search_ml_medicine_articles ::
  "'a eutils \<Rightarrow> int \<Rightarrow> 'a progress option \<Rightarrow> 'a list option \<Rightarrow> 'a search_outcome" where
  "search_ml_medicine_articles searcher batch_size progress_file0 output_file0 =
     (case process_terms searcher batch_size ml_terms (load_progress progress_file0) of
        (Some e, st) \<Rightarrow>
          \<lparr>returned = Inl e, progress_after = s_progress_file st, output_after = output_file0\<rparr>
      | (None, st) \<Rightarrow>
          \<lparr>returned = Inr (s_all_articles st),
           progress_after = s_progress_file st,
           output_after = Some (map snd (s_all_articles st))\<rparr>)"

section \<open>\<^verbatim>\<open>analyze_normalized_citations.py\<close>\<close>

text \<open>
  The script loads the file that \<^verbatim>\<open>pyalex-test.py\<close> writes, so its works are
  \<open>work_record\<close>s. The plotting (lines 56-90) is left out.

  Python's floats are not given a representation here. The type \<open>'f\<close> stands for them, and
  the operations of the interpreter that the script uses on them are parameters, with
  nothing assumed of them: true division of two integers (which rounds, and raises
  \<^verbatim>\<open>OverflowError\<close> when the quotient is too large for a float), a float minus an
  integer and a float plus an integer (which convert the integer first, and raise
  \<^verbatim>\<open>OverflowError\<close> when it is too large), the test \<^verbatim>\<open>x > 0\<close> and the comparison
  \<^verbatim>\<open>x < y\<close> that sorting uses.
\<close>

record 'f float_ops =
  int_truediv :: "int \<Rightarrow> int \<Rightarrow> py_error + 'f"
  float_sub_int :: "'f \<Rightarrow> int \<Rightarrow> py_error + 'f"
  float_add_int :: "'f \<Rightarrow> int \<Rightarrow> py_error + 'f"
  float_gt_zero :: "'f \<Rightarrow> bool"
  float_lt :: "'f \<Rightarrow> 'f \<Rightarrow> bool"

text \<open>A number of the statistics module: an integer or a float.\<close>

datatype 'f py_number = PyInt int | PyFloat 'f

definition gt_zero :: "'f float_ops \<Rightarrow> 'f py_number \<Rightarrow> bool" where
  "gt_zero fl v = (case v of PyInt i \<Rightarrow> 0 < i | PyFloat x \<Rightarrow> float_gt_zero fl x)"

record 'f year_stats =
  average :: "'f py_number"
  median :: "'f py_number option"
  count :: nat

record 'f scored_work = work_record +
  normalized_citation_score :: "'f option"

text \<open>
  Lines 12-17: \<^verbatim>\<open>citations_by_year\<close>, a dictionary from year to the citation counts of
  that year, in the order the years are first met. \<^verbatim>\<open>if year\<close> fails for a null year
  and for the year 0.
\<close>

definition add_citation ::
  "work_record \<Rightarrow> (int \<times> int option list) list \<Rightarrow> (int \<times> int option list) list" where
  "add_citation work acc =
     (case publication_year work of
        None \<Rightarrow> acc
      | Some year \<Rightarrow>
          if year = 0 then acc
          else AList.update year
                 ((case map_of acc year of None \<Rightarrow> [] | Some cites \<Rightarrow> cites) @
                  [cited_by_count work]) acc)"

definition citations_by_year :: "work_record list \<Rightarrow> (int \<times> int option list) list" where
  "citations_by_year works = fold add_citation works []"

fun all_ints :: "int option list \<Rightarrow> int list option" where
  "all_ints [] = Some []"
| "all_ints (None # cites) = None"
| "all_ints (Some c # cites) = (case all_ints cites of None \<Rightarrow> None | Some cs \<Rightarrow> Some (c # cs))"

text \<open>
  \<^verbatim>\<open>statistics.mean\<close>: no data raises \<^verbatim>\<open>StatisticsError\<close>, a \<^verbatim>\<open>None\<close> among the
  data raises \<^verbatim>\<open>TypeError\<close>. The sum is exact; of integers the mean is the integer
  quotient when the division is exact, and otherwise the float of the fraction in lowest
  terms, which is the true division of its numerator by its denominator.
\<close>

definition mean :: "'f float_ops \<Rightarrow> int option list \<Rightarrow> py_error + 'f py_number" where
  "mean fl cites =
     (if cites = [] then Inl StatisticsError
      else (case all_ints cites of
              None \<Rightarrow> Inl TypeError
            | Some cs \<Rightarrow>
                (let total = sum_list cs; n = int (length cs); g = gcd total n
                 in if n dvd total then Inr (PyInt (total div n))
                    else (case int_truediv fl (total div g) (n div g) of
                            Inl e \<Rightarrow> Inl e
                          | Inr x \<Rightarrow> Inr (PyFloat x)))))"

text \<open>
  \<^verbatim>\<open>statistics.median\<close>: the data is sorted first, which raises \<^verbatim>\<open>TypeError\<close> when
  a \<^verbatim>\<open>None\<close> has to be compared, that is when there are two values or more; no data
  raises \<^verbatim>\<open>StatisticsError\<close>. An odd number of values gives the middle one as it is
  (a single \<^verbatim>\<open>None\<close> gives \<^verbatim>\<open>None\<close>), an even number the sum of the two middle ones
  divided by 2, a float.
\<close>

definition median_of :: "'f float_ops \<Rightarrow> int option list \<Rightarrow> py_error + 'f py_number option" where
  "median_of fl cites =
     (case cites of
        [] \<Rightarrow> Inl StatisticsError
      | [c] \<Rightarrow> Inr (map_option PyInt c)
      | _ # _ # _ \<Rightarrow>
          (case all_ints cites of
             None \<Rightarrow> Inl TypeError
           | Some cs \<Rightarrow>
               (let data = sort cs; n = length data
                in if n mod 2 = 1 then Inr (Some (PyInt (data ! (n div 2))))
                   else (case int_truediv fl (data ! (n div 2 - 1) + data ! (n div 2)) 2 of
                           Inl e \<Rightarrow> Inl e
                         | Inr x \<Rightarrow> Inr (Some (PyFloat x))))))"

text \<open>
  Lines 20-27: the dictionary comprehension, which stops at the first exception. For each
  year the mean is computed before the median.
\<close>

fun citation_stats ::
  "'f float_ops \<Rightarrow> (int \<times> int option list) list \<Rightarrow> py_error + (int \<times> 'f year_stats) list" where
  "citation_stats fl [] = Inr []"
| "citation_stats fl ((year, cites) # rest) =
     (case mean fl cites of
        Inl e \<Rightarrow> Inl e
      | Inr a \<Rightarrow>
          (case median_of fl cites of
             Inl e \<Rightarrow> Inl e
           | Inr m \<Rightarrow>
               (case citation_stats fl rest of
                  Inl e \<Rightarrow> Inl e
                | Inr stats \<Rightarrow>
                    Inr ((year, \<lparr>average = a, median = m, count = length cites\<rparr>) # stats))))"

text \<open>
  Lines 31-37, for one work: the score it gets, or the exception. The expression is
  \<^verbatim>\<open>citations / current_year - int(year) + 1\<close> with \<^verbatim>\<open>current_year = 2025\<close>: the
  division first, then the subtraction of the year from the quotient, then the addition
  of 1. Dividing \<^verbatim>\<open>None\<close> raises \<^verbatim>\<open>TypeError\<close>.
\<close>

definition score_of ::
  "'f float_ops \<Rightarrow> (int \<times> 'f year_stats) list \<Rightarrow> work_record \<Rightarrow> py_error + 'f option" where
  "score_of fl stats work =
     (let current_year = 2025;
          year = publication_year work;
          citations = cited_by_count work
      in (case year of
            None \<Rightarrow> Inr None
          | Some y \<Rightarrow>
              (case map_of stats y of
                 None \<Rightarrow> Inr None
               | Some s \<Rightarrow>
                   if gt_zero fl (average s) then
                     (case citations of
                        None \<Rightarrow> Inl TypeError
                      | Some c \<Rightarrow>
                          (case int_truediv fl c current_year of
                             Inl e \<Rightarrow> Inl e
                           | Inr divided \<Rightarrow>
                               (case float_sub_int fl divided y of
                                  Inl e \<Rightarrow> Inl e
                                | Inr subtracted \<Rightarrow>
                                    (case float_add_int fl subtracted 1 of
                                       Inl e \<Rightarrow> Inl e
                                     | Inr score \<Rightarrow> Inr (Some score)))))
                   else Inr None)))"

text \<open>Lines 30-37: the loop over the works, adding the field to each.\<close>

fun add_scores ::
  "'f float_ops \<Rightarrow> (int \<times> 'f year_stats) list \<Rightarrow> work_record list \<Rightarrow>
   py_error + 'f scored_work list" where
  "add_scores fl stats [] = Inr []"
| "add_scores fl stats (work # works) =
     (case score_of fl stats work of
        Inl e \<Rightarrow> Inl e
      | Inr sc \<Rightarrow>
          (case add_scores fl stats works of
             Inl e \<Rightarrow> Inl e
           | Inr scored \<Rightarrow> Inr (work_record.extend work \<lparr>normalized_citation_score = sc\<rparr> # scored)))"

text \<open>
  Lines 40-44: the works that have a score, sorted by it, largest first.
  \<^verbatim>\<open>sorted(..., reverse=True)\<close> is stable: of two works neither of whose scores is less
  than the other, the one that comes first in the file stays first. The scores are never
  NaN (a finite quotient minus a finite float), so \<^verbatim>\<open><\<close> orders them, and the result
  is what insertion from the right gives: a work goes behind those with a larger score.
\<close>

fun insert_desc :: "('f \<Rightarrow> 'f \<Rightarrow> bool) \<Rightarrow> ('a \<Rightarrow> 'f) \<Rightarrow> 'a \<Rightarrow> 'a list \<Rightarrow> 'a list" where
  "insert_desc lt key x [] = [x]"
| "insert_desc lt key x (y # ys) =
     (if lt (key x) (key y) then y # insert_desc lt key x ys else x # y # ys)"

definition ranked :: "'f float_ops \<Rightarrow> 'f scored_work list \<Rightarrow> 'f scored_work list" where
  "ranked fl works =
     foldr (insert_desc (float_lt fl) (\<lambda>x. the (normalized_citation_score x)))
       (filter (\<lambda>w. normalized_citation_score w \<noteq> None) works) []"

text \<open>
  Lines 47-55: the lines printed for the first ten. \<^verbatim>\<open>work['title'][:80]\<close> raises
  \<^verbatim>\<open>TypeError\<close> when the title is \<^verbatim>\<open>None\<close>; what was printed before stays printed.
\<close>

datatype 'f out_line =
    Heading
  | TitleLine nat string
  | DetailLine "int option" "int option" "'f option"
  | FirstAuthorLine string

definition first_author :: "'f scored_work \<Rightarrow> string" where
  "first_author work =
     (case authors work of
        [] \<Rightarrow> ''Unknown''
      | a # _ \<Rightarrow> (case name a of None \<Rightarrow> ''None'' | Some n \<Rightarrow> n))"

fun print_works ::
  "nat \<Rightarrow> 'f scored_work list \<Rightarrow> 'f out_line list \<Rightarrow> 'f out_line list \<times> py_error option" where
  "print_works i [] out = (out, None)"
| "print_works i (work # works) out =
     (case title work of
        None \<Rightarrow> (out, Some TypeError)
      | Some t \<Rightarrow>
          print_works (i + 1) works
            (out @ [TitleLine i (take 80 t),
                    DetailLine (publication_year work) (cited_by_count work)
                      (normalized_citation_score work),
                    FirstAuthorLine (first_author work)]))"

record 'f analysis_result =
  scored :: "'f scored_work list"
  printed :: "'f out_line list"
  failed :: "py_error option"

text \<open>Lines 8-55, on the list of works loaded from the file.\<close>

definition analyze :: "'f float_ops \<Rightarrow> work_record list \<Rightarrow> 'f analysis_result" where
  "analyze fl works =
     (case citation_stats fl (citations_by_year works) of
        Inl e \<Rightarrow> \<lparr>scored = [], printed = [], failed = Some e\<rparr>
      | Inr stats \<Rightarrow>
          (case add_scores fl stats works of
             Inl e \<Rightarrow> \<lparr>scored = [], printed = [], failed = Some e\<rparr>
           | Inr works' \<Rightarrow>
               (case print_works 1 (take 10 (ranked fl works')) [Heading] of
                  (out, err) \<Rightarrow> \<lparr>scored = works', printed = out, failed = err\<rparr>)))"

section \<open>Runs along a chain of pages\<close>

text \<open>
  To speak of a run of the OpenAlex loop over any number of pages: the remote source
  serves the given pages one after the other from a cursor, each with status 200 and a
  non-empty next cursor, and hands over the final cursor; the trace the loop leaves while
  it goes through them; and the records they add.
\<close>

fun serves_pages :: "(string \<Rightarrow> page_json response) \<Rightarrow> string \<Rightarrow> page_json list \<Rightarrow> string \<Rightarrow> bool" where
  "serves_pages requests_get cursor [] final = (cursor = final)"
| "serves_pages requests_get cursor (data # pages) final =
     (status_code (requests_get cursor) = 200 \<and> json_body (requests_get cursor) = Some data \<and>
      (case get_next_cursor data of
         None \<Rightarrow> False
       | Some nxt \<Rightarrow> nxt \<noteq> [] \<and> serves_pages requests_get nxt pages final))"

fun pages_trace :: "string \<Rightarrow> nat \<Rightarrow> page_json list \<Rightarrow> event list" where
  "pages_trace cursor n [] = []"
| "pages_trace cursor n (data # pages) =
     [Request cursor, PrintSaved (length (get_results data)) (n + length (get_results data)),
      Sleep] @
     pages_trace (the (get_next_cursor data)) (n + length (get_results data)) pages"

definition pages_records :: "page_json list \<Rightarrow> work_record list" where
  "pages_records pages = concat (map (\<lambda>data. map build_record (get_results data)) pages)"

section \<open>Simulated remote sources\<close>

text \<open>
  Small remote sources and files to run the scripts on: an OpenAlex listing of three pages
  of two works each, the same listing with a server error on its second page, a listing
  whose first page is empty, a body without the expected fields, and a single page.
\<close>

definition work_of :: "string \<Rightarrow> int \<Rightarrow> int \<Rightarrow> work_json" where
  "work_of t y c =
     \<lparr>w_title = Some t, w_publication_year = Some y, w_cited_by_count = Some c,
      authorships = Some []\<rparr>"

definition record_of :: "string \<Rightarrow> int \<Rightarrow> int \<Rightarrow> work_record" where
  "record_of t y c =
     \<lparr>title = Some t, publication_year = Some y, cited_by_count = Some c, authors = []\<rparr>"

definition ok_page :: "work_json list \<Rightarrow> string option \<Rightarrow> page_json response" where
  "ok_page ws nxt =
     \<lparr>status_code = 200,
      json_body = Some \<lparr>results = Some ws, meta = Some \<lparr>next_cursor = nxt\<rparr>\<rparr>\<rparr>"

definition status_only :: "int \<Rightarrow> 'b response" where
  "status_only n = \<lparr>status_code = n, json_body = None\<rparr>"

definition three_pages :: "string \<Rightarrow> page_json response" where
  "three_pages cursor =
     (if cursor = ''*'' then ok_page [work_of ''A'' 2020 1, work_of ''B'' 2020 2] (Some ''c1'')
      else if cursor = ''c1'' then ok_page [work_of ''C'' 2021 3, work_of ''D'' 2021 4] (Some ''c2'')
      else if cursor = ''c2'' then ok_page [work_of ''E'' 2022 5, work_of ''F'' 2022 6] None
      else status_only 404)"

definition three_pages_fail2 :: "string \<Rightarrow> page_json response" where
  "three_pages_fail2 cursor = (if cursor = ''c1'' then status_only 500 else three_pages cursor)"

definition empty_first_page :: "string \<Rightarrow> page_json response" where
  "empty_first_page cursor =
     (if cursor = ''*'' then ok_page [] (Some ''c1'')
      else if cursor = ''c1'' then ok_page [work_of ''A'' 2020 1] None
      else status_only 404)"

definition missing_fields :: "string \<Rightarrow> page_json response" where
  "missing_fields cursor = \<lparr>status_code = 200, json_body = Some \<lparr>results = None, meta = None\<rparr>\<rparr>"

definition one_page :: "string \<Rightarrow> page_json response" where
  "one_page cursor = ok_page [work_of ''A'' 2020 1, work_of ''B'' 2020 2] None"

text \<open>
  For \<^verbatim>\<open>main.py\<close>, a source of two batches followed by \<^verbatim>\<open>None\<close>. For
  \<^verbatim>\<open>get-pubmed.py\<close>, a listing of the given identifiers that serves the slice asked for
  and the summary of the identifiers asked for (with the \<^verbatim>\<open>uids\<close> key first, as NCBI
  sends it), and a service whose search answers lack \<^verbatim>\<open>esearchresult\<close>.
\<close>

definition two_batches :: "int \<Rightarrow> string list option" where
  "two_batches retstart =
     (if retstart = 30294 then Some [''111'']
      else if retstart = 30794 then Some [''222'']
      else None)"

definition ok_search :: "int \<Rightarrow> string list \<Rightarrow> search_json response" where
  "ok_search n ids =
     \<lparr>status_code = 200,
      json_body = Some \<lparr>esearchresult =
        Some \<lparr>es_count = Some n, webenv = Some ''MCID'', querykey = Some ''1'',
              idlist = Some ids\<rparr>\<rparr>\<rparr>"

definition ok_summary :: "(string \<times> 'a) list \<Rightarrow> 'a summary_json response" where
  "ok_summary items = \<lparr>status_code = 200, json_body = Some \<lparr>result = Some items\<rparr>\<rparr>"

definition ncbi_listing :: "string list \<Rightarrow> (string \<Rightarrow> 'a) \<Rightarrow> 'a eutils" where
  "ncbi_listing ids data =
     \<lparr>esearch = (\<lambda>query retmax retstart.
        ok_search (int (length ids)) (take (nat retmax) (drop (nat retstart) ids))),
      esummary = (\<lambda>id_list. ok_summary ((''uids'', data ''uids'') # map (\<lambda>i. (i, data i)) id_list))\<rparr>"

definition no_esearchresult :: "string eutils" where
  "no_esearchresult =
     \<lparr>esearch = (\<lambda>query retmax retstart.
        \<lparr>status_code = 200, json_body = Some \<lparr>esearchresult = None\<rparr>\<rparr>),
      esummary = (\<lambda>id_list. status_only 404)\<rparr>"

definition missing_results :: "string \<Rightarrow> page_json response" where
  "missing_results cursor =
     (if cursor = ''*'' then
        \<lparr>status_code = 200,
         json_body = Some \<lparr>results = None, meta = Some \<lparr>next_cursor = Some ''c1''\<rparr>\<rparr>\<rparr>
      else status_only 404)"

text \<open>
  A PubMed Central listing of six identifiers, an OpenAlex page whose only work has no
  title, the record the fetch script stores for it, and a small file of works for the
  analysis script with the statistics the script computes from it.
\<close>

definition six_ids :: "string list" where
  "six_ids = [''11'', ''12'', ''13'', ''14'', ''15'', ''16'']"

definition article_of :: "string \<Rightarrow> string" where
  "article_of i = ''article '' @ i"

definition pmc_six :: "string eutils" where
  "pmc_six = ncbi_listing six_ids article_of"

definition untitled_page :: "string \<Rightarrow> page_json response" where
  "untitled_page cursor =
     ok_page [\<lparr>w_title = None, w_publication_year = Some 2024, w_cited_by_count = Some 2025,
               authorships = None\<rparr>] None"

definition untitled_record :: work_record where
  "untitled_record =
     \<lparr>title = None, publication_year = Some 2024, cited_by_count = Some 2025, authors = []\<rparr>"

definition sample_works :: "work_record list" where
  "sample_works =
     [record_of ''A'' 2024 2025, record_of ''B'' 2024 0, record_of ''D'' 2020 0,
      \<lparr>title = Some ''E'', publication_year = None, cited_by_count = None, authors = []\<rparr>]"

text \<open>
  A float arithmetic to run the analysis on: the rationals, with exact operations that
  raise nothing. It agrees with the interpreter wherever the interpreter's results are
  exact, as they are on the values used below (\<^verbatim>\<open>2025 / 2025\<close>, \<^verbatim>\<open>0 / 2025\<close>,
  \<^verbatim>\<open>2025 / 2\<close> and the small integers subtracted from and added to them).
\<close>

definition exact_ops :: "rat float_ops" where
  "exact_ops =
     \<lparr>int_truediv = (\<lambda>a b. if b = 0 then Inl ZeroDivisionError else Inr (of_int a / of_int b)),
      float_sub_int = (\<lambda>x n. Inr (x - of_int n)),
      float_add_int = (\<lambda>x n. Inr (x + of_int n)),
      float_gt_zero = (\<lambda>x. 0 < x),
      float_lt = (\<lambda>x y. x < y)\<rparr>"

definition sample_stats :: "(int \<times> rat year_stats) list" where
  "sample_stats =
     [(2024, \<lparr>average = PyFloat (2025 / 2), median = Some (PyFloat (2025 / 2)), count = 2\<rparr>),
      (2020, \<lparr>average = PyInt 0, median = Some (PyInt 0), count = 1\<rparr>)]"

lemmas fixture_defs = work_of_def record_of_def ok_page_def status_only_def three_pages_def
  three_pages_fail2_def empty_first_page_def missing_fields_def one_page_def
lemmas pyalex_defs = loop_body_def get_results_def get_next_cursor_def build_record_def
  build_author_def load_all_works_def pyalex_script_def

lemmas fixture2_defs = two_batches_def ok_search_def ok_summary_def ncbi_listing_def
  no_esearchresult_def missing_results_def

lemmas pubmed_defs = batch_step_def try_batch_def search_def json_or_raise_def
  fetch_article_details_def add_articles_def

lemmas fixture3_defs = six_ids_def article_of_def pmc_six_def

lemmas search_defs = search_ml_medicine_articles_def load_progress_def ml_terms_def
  process_term_def truthy_def

section \<open>The OpenAlex loop, one pass at a time\<close>

lemma loop_body_non_200:
  "status_code (requests_get cursor) \<noteq> 200 \<Longrightarrow>
   loop_body requests_get cursor all_works output_file tr =
     Break \<lparr>disk = output_file,
            trace = tr @ [Request cursor, PrintError (status_code (requests_get cursor)),
                          PrintFinished],
            raised = None\<rparr>"
  by (simp add: loop_body_def)

lemma loop_body_not_json:
  "status_code (requests_get cursor) = 200 \<Longrightarrow> json_body (requests_get cursor) = None \<Longrightarrow>
   loop_body requests_get cursor all_works output_file tr =
     Break \<lparr>disk = output_file, trace = tr @ [Request cursor], raised = Some JSONDecodeError\<rparr>"
  by (simp add: loop_body_def)

lemma loop_body_last_page:
  "status_code (requests_get cursor) = 200 \<Longrightarrow> json_body (requests_get cursor) = Some data \<Longrightarrow>
   get_next_cursor data = None \<or> get_next_cursor data = Some [] \<Longrightarrow>
   loop_body requests_get cursor all_works output_file tr =
     Break \<lparr>disk = Some (all_works @ map build_record (get_results data)),
            trace = tr @ [Request cursor,
                          PrintSaved (length (get_results data))
                            (length all_works + length (get_results data)),
                          PrintNoMorePages, PrintFinished],
            raised = None\<rparr>"
  by (auto simp add: loop_body_def Let_def)

lemma loop_body_next_page:
  "status_code (requests_get cursor) = 200 \<Longrightarrow> json_body (requests_get cursor) = Some data \<Longrightarrow>
   get_next_cursor data = Some nxt \<Longrightarrow> nxt \<noteq> [] \<Longrightarrow>
   loop_body requests_get cursor all_works output_file tr =
     Continue nxt (all_works @ map build_record (get_results data))
       (Some (all_works @ map build_record (get_results data)))
       (tr @ [Request cursor,
              PrintSaved (length (get_results data))
                (length all_works + length (get_results data)),
              Sleep])"
  by (simp add: loop_body_def Let_def)

lemma main_loop_along_pages:
  "serves_pages requests_get cursor pages final \<Longrightarrow>
   main_loop (length pages + fuel) requests_get cursor all_works output_file tr =
     main_loop fuel requests_get final (all_works @ pages_records pages)
       (if pages = [] then output_file else Some (all_works @ pages_records pages))
       (tr @ pages_trace cursor (length all_works) pages)"
proof (induction pages arbitrary: cursor all_works output_file tr)
  case Nil
  then show ?case by (simp add: pages_records_def)
next
  case (Cons data pages)
  from Cons.prems obtain nxt where
    ok: "status_code (requests_get cursor) = 200" "json_body (requests_get cursor) = Some data"
    and nxt: "get_next_cursor data = Some nxt" "nxt \<noteq> []"
    and rest: "serves_pages requests_get nxt pages final"
    by (auto split: option.splits)
  show ?case
    using Cons.IH [OF rest] ok nxt
    by (simp add: loop_body_next_page pages_records_def)
qed

lemma pyalex_script_fails_after_pages:
  assumes "serves_pages requests_get ''*'' pages cursor"
    and "status_code (requests_get cursor) \<noteq> 200"
  shows "pyalex_script (Suc (length pages + fuel)) requests_get output_file =
        Some \<lparr>disk = (if pages = [] then output_file
                       else Some (load_all_works output_file @ pages_records pages)),
              trace = [PrintStarting (length (load_all_works output_file))] @
                      pages_trace ''*'' (length (load_all_works output_file)) pages @
                      [Request cursor, PrintError (status_code (requests_get cursor)),
                       PrintFinished],
              raised = None\<rparr>"
proof -
  have "pyalex_script (Suc (length pages + fuel)) requests_get output_file =
      main_loop (length pages + Suc fuel) requests_get ''*'' (load_all_works output_file)
        output_file [PrintStarting (length (load_all_works output_file))]"
    by (simp add: pyalex_script_def Let_def)
  also have "\<dots> = main_loop (Suc fuel) requests_get cursor
        (load_all_works output_file @ pages_records pages)
        (if pages = [] then output_file
         else Some (load_all_works output_file @ pages_records pages))
        ([PrintStarting (length (load_all_works output_file))] @
         pages_trace ''*'' (length (load_all_works output_file)) pages)"
    using assms(1) by (simp only: main_loop_along_pages)
  finally show ?thesis
    using assms(2) by (simp add: loop_body_non_200)
qed

lemma pyalex_script_complete_run:
  assumes "serves_pages requests_get ''*'' pages cursor"
    and "status_code (requests_get cursor) = 200"
    and "json_body (requests_get cursor) = Some data"
    and "get_next_cursor data = None \<or> get_next_cursor data = Some []"
  shows "pyalex_script (Suc (length pages + fuel)) requests_get output_file =
        Some \<lparr>disk = Some (load_all_works output_file @ pages_records (pages @ [data])),
              trace = [PrintStarting (length (load_all_works output_file))] @
                      pages_trace ''*'' (length (load_all_works output_file)) pages @
                      [Request cursor,
                       PrintSaved (length (get_results data))
                         (length (load_all_works output_file) +
                          length (pages_records (pages @ [data]))),
                       PrintNoMorePages, PrintFinished],
              raised = None\<rparr>"
proof -
  have "pyalex_script (Suc (length pages + fuel)) requests_get output_file =
      main_loop (length pages + Suc fuel) requests_get ''*'' (load_all_works output_file)
        output_file [PrintStarting (length (load_all_works output_file))]"
    by (simp add: pyalex_script_def Let_def)
  also have "\<dots> = main_loop (Suc fuel) requests_get cursor
        (load_all_works output_file @ pages_records pages)
        (if pages = [] then output_file
         else Some (load_all_works output_file @ pages_records pages))
        ([PrintStarting (length (load_all_works output_file))] @
         pages_trace ''*'' (length (load_all_works output_file)) pages)"
    using assms(1) by (simp only: main_loop_along_pages)
  finally show ?thesis
    using assms(2-4) by (simp add: loop_body_last_page pages_records_def)
qed

section \<open>The loop of main.py: it ends only by raising\<close>

lemma write_batches_error:
  "write_batches articles f = (Some e, f') \<Longrightarrow> e = TypeError"
  by (induction articles f rule: write_batches.induct) auto

lemma write_batches_ok:
  "write_batches articles f = (None, f') \<Longrightarrow> None \<notin> set articles"
  by (induction articles f rule: write_batches.induct) auto

lemma write_batches_all:
  "None \<notin> set articles \<Longrightarrow> write_batches articles f = (None, f @ concat (map the articles))"
  by (induction articles f rule: write_batches.induct) auto

lemma pmid_loop_body_break:
  "pmid_loop_body pmids_for_query start_count articles f tr = PmBreak r \<Longrightarrow>
   pm_raised r = Some TypeError"
  by (auto simp add: pmid_loop_body_def Let_def
      split: prod.splits option.splits if_splits
      dest: write_batches_error write_batches_ok)

lemma pmid_loop_ends_only_by_raising:
  "pmid_loop fuel pmids_for_query start_count articles f tr = Some r \<Longrightarrow>
   pm_raised r = Some TypeError"
proof (induction fuel arbitrary: start_count articles f tr)
  case 0
  then show ?case by simp
next
  case (Suc fuel)
  then show ?case
    by (auto split: pm_step.splits dest: pmid_loop_body_break)
qed

lemma pmid_loop_runs_on:
  "\<forall>retstart. pmids_for_query retstart \<noteq> None \<Longrightarrow> None \<notin> set articles \<Longrightarrow>
   pmid_loop fuel pmids_for_query start_count articles f tr = None"
proof (induction fuel arbitrary: start_count articles f tr)
  case 0
  then show ?case by simp
next
  case (Suc fuel)
  from Suc.prems(1) have some: "pmids_for_query start_count \<noteq> None"
    by blast
  with Suc.prems(2) have ok: "None \<notin> set (articles @ [pmids_for_query start_count])"
    by auto
  show ?case
    using some write_batches_all [OF ok, of f] Suc.IH [OF Suc.prems(1) ok]
    by (simp add: pmid_loop_body_def Let_def)
qed

section \<open>The batch loop of get-pubmed.py, one pass at a time\<close>

lemma batch_step_progress_file:
  "s_progress_file (batch_step searcher query combo_key total_results batch_size start st) =
     Some \<lparr>p_searched_combos =
             s_searched_combos (batch_step searcher query combo_key total_results batch_size start st),
           p_articles =
             s_all_articles (batch_step searcher query combo_key total_results batch_size start st)\<rparr>"
  by (simp add: batch_step_def Let_def split: sum.splits)

lemma batch_step_ignores_file:
  "batch_step searcher query combo_key total_results batch_size start (st\<lparr>s_progress_file := other\<rparr>) =
   batch_step searcher query combo_key total_results batch_size start st"
  by (simp add: batch_step_def Let_def split: sum.splits)


lemma add_articles_Nil: "add_articles [] al = al"
  by (simp add: add_articles_def)

lemma add_articles_Cons:
  "add_articles ((k, v) # items) al =
     add_articles items (if k \<noteq> ''uids'' then AList.update k v al else al)"
  by (simp add: add_articles_def)

lemma add_articles_distinct:
  "distinct (map fst al) \<Longrightarrow> distinct (map fst (add_articles items al))"
proof (induction items arbitrary: al)
  case Nil
  then show ?case by (simp add: add_articles_Nil)
next
  case (Cons item items)
  obtain k v where item: "item = (k, v)" by (cases item)
  show ?case
    unfolding item add_articles_Cons
    by (rule Cons.IH) (simp add: Cons.prems distinct_update)
qed

lemma add_articles_other_key:
  "k \<notin> fst ` set items \<Longrightarrow> map_of (add_articles items al) k = map_of al k"
proof (induction items arbitrary: al)
  case Nil
  then show ?case by (simp add: add_articles_Nil)
next
  case (Cons item items)
  obtain k' v' where item: "item = (k', v')" by (cases item)
  from Cons.prems have "k \<noteq> k'" and "k \<notin> fst ` set items" by (auto simp: item)
  then show ?case
    unfolding item add_articles_Cons
    by (simp add: Cons.IH update_conv')
qed

lemma add_articles_lookup:
  "distinct (map fst items) \<Longrightarrow> (k, v) \<in> set items \<Longrightarrow> k \<noteq> ''uids'' \<Longrightarrow>
   map_of (add_articles items al) k = Some v"
proof (induction items arbitrary: al)
  case Nil
  then show ?case by simp
next
  case (Cons item items)
  obtain k' v' where item: "item = (k', v')" by (cases item)
  show ?case
  proof (cases "(k, v) = (k', v')")
    case True
    with Cons.prems have "k \<notin> fst ` set items" by (auto simp: item)
    with True Cons.prems(3) show ?thesis
      unfolding item add_articles_Cons
      by (simp add: add_articles_other_key update_conv')
  next
    case False
    with Cons.prems have "(k, v) \<in> set items" "distinct (map fst items)" by (auto simp: item)
    then show ?thesis
      unfolding item add_articles_Cons
      using Cons.IH Cons.prems(3) by blast
  qed
qed

lemma add_articles_again_aux:
  "\<forall>(k, v) \<in> set items. k \<noteq> ''uids'' \<longrightarrow> map_of al k = Some v \<Longrightarrow>
   add_articles items al = al"
proof (induction items)
  case Nil
  then show ?case by (simp add: add_articles_Nil)
next
  case (Cons item items)
  obtain k v where item: "item = (k, v)" by (cases item)
  from Cons.prems have "k \<noteq> ''uids'' \<Longrightarrow> AList.update k v al = al"
    by (simp add: item update_triv)
  with Cons show ?case
    unfolding item add_articles_Cons by auto
qed

lemma add_articles_again:
  "distinct (map fst items) \<Longrightarrow>
   add_articles items (add_articles items al) = add_articles items al"
  by (rule add_articles_again_aux) (auto simp: add_articles_lookup)

lemma add_articles_present_key:
  "k \<noteq> ''uids'' \<Longrightarrow> k \<in> fst ` set al \<Longrightarrow>
   map fst (add_articles [(k, v)] al) = map fst al \<and>
   map_of (add_articles [(k, v)] al) k = Some v"
  by (simp add: add_articles_Cons add_articles_Nil update_keys update_conv')

lemma try_batch_distinct:
  "try_batch searcher query retmax start al = Inr al' \<Longrightarrow> distinct (map fst al) \<Longrightarrow>
   distinct (map fst al')"
  by (auto simp add: try_batch_def add_articles_distinct
      split: sum.splits option.splits if_splits)

lemma batch_step_distinct:
  "distinct (map fst (s_all_articles st)) \<Longrightarrow>
   distinct (map fst (s_all_articles
     (batch_step searcher query combo_key total_results batch_size start st)))"
  by (auto simp add: batch_step_def Let_def try_batch_distinct split: sum.splits)

lemma batch_loop_distinct:
  "distinct (map fst (s_all_articles st)) \<Longrightarrow>
   distinct (map fst (s_all_articles
     (fold (batch_step searcher query combo_key total_results batch_size) starts st)))"
  by (induction starts arbitrary: st) (simp_all add: batch_step_distinct)

lemma process_term_distinct:
  "process_term searcher batch_size ml_term st = Inr st' \<Longrightarrow>
   distinct (map fst (s_all_articles st)) \<Longrightarrow> distinct (map fst (s_all_articles st'))"
  by (auto simp add: process_term_def Let_def batch_loop_distinct
      split: sum.splits option.splits if_splits)

lemma process_terms_distinct:
  "distinct (map fst (s_all_articles st)) \<Longrightarrow>
   distinct (map fst (s_all_articles (snd (process_terms searcher batch_size terms st))))"
proof (induction terms arbitrary: st)
  case Nil
  then show ?case by simp
next
  case (Cons t terms)
  then show ?case
    by (auto split: sum.splits dest: process_term_distinct)
qed

lemma try_batch_isl:
  "isl (try_batch searcher query retmax start al) = isl (try_batch searcher query retmax start [])"
  by (simp add: try_batch_def split: sum.splits option.splits)

lemma batch_step_combos:
  "s_searched_combos (batch_step searcher query combo_key total_results batch_size start st) =
     s_searched_combos st @
       (if isl (try_batch searcher query (min batch_size (total_results - start)) start [])
        then [] else [combo_key])"
proof -
  let ?r = "try_batch searcher query (min batch_size (total_results - start)) start (s_all_articles st)"
  have "isl ?r = isl (try_batch searcher query (min batch_size (total_results - start)) start [])"
    by (rule try_batch_isl)
  then show ?thesis
    by (cases ?r) (simp_all add: batch_step_def Let_def)
qed

lemma batch_loop_combos:
  "s_searched_combos (fold (batch_step searcher query combo_key total_results batch_size) starts st) =
     s_searched_combos st @
       replicate
         (length (filter (\<lambda>start.
            \<not> isl (try_batch searcher query (min batch_size (total_results - start)) start []))
            starts))
         combo_key"
proof (induction starts arbitrary: st)
  case Nil
  then show ?case by simp
next
  case (Cons start starts)
  show ?case
    by (simp add: Cons.IH batch_step_combos replicate_app_Cons_same)
qed

lemma batch_loop_progress_file:
  "starts \<noteq> [] \<Longrightarrow>
   s_progress_file (fold (batch_step searcher query combo_key total_results batch_size) starts st) =
     Some \<lparr>p_searched_combos =
             s_searched_combos
               (fold (batch_step searcher query combo_key total_results batch_size) starts st),
           p_articles =
             s_all_articles
               (fold (batch_step searcher query combo_key total_results batch_size) starts st)\<rparr>"
proof (induction starts arbitrary: st rule: rev_induct)
  case Nil
  then show ?case by simp
next
  case (snoc start starts)
  show ?case by (simp add: batch_step_progress_file)
qed

lemma process_terms_skip:
  "set terms \<subseteq> set (s_searched_combos st) \<Longrightarrow>
   process_terms searcher batch_size terms st = (None, st)"
  by (induction terms) (simp_all add: process_term_def)

lemma resume_skips_searched_terms:
  "set ml_terms \<subseteq> set (p_searched_combos p) \<Longrightarrow>
   search_ml_medicine_articles searcher batch_size (Some p) output_file =
     \<lparr>returned = Inr (p_articles p), progress_after = Some p,
      output_after = Some (map snd (p_articles p))\<rparr>"
  by (simp add: search_ml_medicine_articles_def load_progress_def process_terms_skip)

lemma process_term_run:
  assumes "search searcher ml_term 0 0 = Inr (Some initial_results)"
    and "esearchresult initial_results = Some esr"
    and "es_count esr = Some total_results"
    and "truthy (webenv esr)" and "truthy (querykey esr)"
    and "py_range total_results batch_size = Inr starts"
    and "ml_term \<notin> set (s_searched_combos st)"
  shows "process_term searcher batch_size ml_term st =
     Inr \<lparr>s_searched_combos =
            s_searched_combos
              (fold (batch_step searcher ml_term ml_term total_results batch_size) starts st) @
            [ml_term],
          s_all_articles =
            s_all_articles
              (fold (batch_step searcher ml_term ml_term total_results batch_size) starts st),
          s_progress_file =
            Some \<lparr>p_searched_combos =
                    s_searched_combos
                      (fold (batch_step searcher ml_term ml_term total_results batch_size)
                         starts st) @
                    [ml_term],
                  p_articles =
                    s_all_articles
                      (fold (batch_step searcher ml_term ml_term total_results batch_size)
                         starts st)\<rparr>\<rparr>"
  using assms by (simp add: process_term_def Let_def)

lemma py_range_6_2: "py_range 6 2 = Inr [0, 2, 4]"
  by (simp add: py_range_def range_len_def upt_rec)

lemma search_ml_medicine_articles_distinct:
  assumes "case saved_progress of None \<Rightarrow> True | Some p \<Rightarrow> distinct (map fst (p_articles p))"
    and "returned (search_ml_medicine_articles searcher batch_size saved_progress saved_output) =
           Inr articles"
  shows "distinct (map fst articles)"
proof -
  have "distinct (map fst (s_all_articles (load_progress saved_progress)))"
    using assms(1) by (simp add: load_progress_def split: option.splits)
  then have "distinct (map fst (s_all_articles
      (snd (process_terms searcher batch_size ml_terms (load_progress saved_progress)))))"
    by (rule process_terms_distinct)
  with assms(2) show ?thesis
    by (auto simp add: search_ml_medicine_articles_def split: prod.splits option.splits)
qed

section \<open>The analysis script: only the float operations can make the scoring raise\<close>

lemma add_scores_length:
  "add_scores fl stats works = Inr works' \<Longrightarrow> length works' = length works"
  by (induction works arbitrary: works') (auto split: sum.splits)

lemma add_scores_nth:
  "add_scores fl stats works = Inr works' \<Longrightarrow> i < length works \<Longrightarrow>
   score_of fl stats (works ! i) = Inr (normalized_citation_score (works' ! i)) \<and>
   work_record.truncate (works' ! i) = works ! i"
proof (induction works arbitrary: works' i)
  case Nil
  then show ?case by simp
next
  case (Cons work works)
  from Cons.prems(1) obtain sc rest where
    sc: "score_of fl stats work = Inr sc" and rest: "add_scores fl stats works = Inr rest"
    and works': "works' = work_record.extend work \<lparr>normalized_citation_score = sc\<rparr> # rest"
    by (auto split: sum.splits)
  show ?case
  proof (cases i)
    case 0
    then show ?thesis
      by (simp add: works' sc work_record.defs)
  next
    case (Suc j)
    with Cons.prems(2) have "j < length works" by simp
    from Cons.IH [OF rest this] show ?thesis
      by (simp add: works' Suc)
  qed
qed

lemma add_scores_total:
  "\<forall>w \<in> set works. \<exists>sc. score_of fl stats w = Inr sc \<Longrightarrow>
   \<exists>works'. add_scores fl stats works = Inr works'"
  by (induction works) auto

lemma all_ints_Some: "all_ints cites = Some cs \<Longrightarrow> None \<notin> set cites"
  by (induction cites arbitrary: cs rule: all_ints.induct) (auto split: option.splits)

lemma citation_stats_keys:
  "citation_stats fl al = Inr stats \<Longrightarrow>
   map fst stats = map fst al \<and> (\<forall>(y, cites) \<in> set al. None \<notin> set cites)"
proof (induction al arbitrary: stats rule: citation_stats.induct)
  case (1 fl)
  then show ?case by simp
next
  case (2 fl year cites rest)
  from "2.prems" obtain a m stats' where
    a: "mean fl cites = Inr a" and m: "median_of fl cites = Inr m"
    and rest: "citation_stats fl rest = Inr stats'"
    and stats: "stats = (year, \<lparr>average = a, median = m, count = length cites\<rparr>) # stats'"
    by (auto split: sum.splits)
  from a have "None \<notin> set cites"
    by (auto simp add: mean_def all_ints_Some split: if_splits option.splits)
  with "2.IH" [OF a m rest] show ?case
    by (simp add: stats)
qed

lemma add_citation_keeps:
  "map_of acc y = Some cites \<Longrightarrow>
   \<exists>cites'. map_of (add_citation work acc) y = Some cites' \<and> set cites \<subseteq> set cites'"
  by (auto simp add: add_citation_def update_conv' split: option.splits)

lemma add_citation_adds:
  "publication_year work = Some y \<Longrightarrow> y \<noteq> 0 \<Longrightarrow>
   \<exists>cites. map_of (add_citation work acc) y = Some cites \<and> cited_by_count work \<in> set cites"
  by (simp add: add_citation_def update_conv')

lemma add_citation_no_zero:
  "0 \<notin> fst ` set acc \<Longrightarrow> 0 \<notin> fst ` set (add_citation work acc)"
  by (auto simp add: add_citation_def dom_update split: option.splits)

lemma fold_add_citation_keeps:
  "map_of acc y = Some cites \<Longrightarrow>
   \<exists>cites'. map_of (fold add_citation works acc) y = Some cites' \<and> set cites \<subseteq> set cites'"
proof (induction works arbitrary: acc cites)
  case Nil
  then show ?case by simp
next
  case (Cons work works)
  from add_citation_keeps [OF Cons.prems, of work] obtain mid where
    mid: "map_of (add_citation work acc) y = Some mid" "set cites \<subseteq> set mid"
    by blast
  from Cons.IH [OF mid(1)] mid(2) show ?case
    by auto
qed

lemma fold_add_citation_adds:
  "w \<in> set works \<Longrightarrow> publication_year w = Some y \<Longrightarrow> y \<noteq> 0 \<Longrightarrow>
   \<exists>cites. map_of (fold add_citation works acc) y = Some cites \<and> cited_by_count w \<in> set cites"
proof (induction works arbitrary: acc)
  case Nil
  then show ?case by simp
next
  case (Cons work works)
  show ?case
  proof (cases "w = work")
    case True
    from add_citation_adds [OF Cons.prems(2,3), of acc] obtain mid where
      mid: "map_of (add_citation w acc) y = Some mid" "cited_by_count w \<in> set mid"
      by blast
    from fold_add_citation_keeps [OF mid(1), of works] mid(2) True show ?thesis
      by auto
  next
    case False
    with Cons.prems have "w \<in> set works" by simp
    from Cons.IH [OF this Cons.prems(2,3)] show ?thesis
      by simp
  qed
qed

lemma fold_add_citation_no_zero:
  "0 \<notin> fst ` set acc \<Longrightarrow> 0 \<notin> fst ` set (fold add_citation works acc)"
  by (induction works arbitrary: acc) (simp_all add: add_citation_no_zero)

lemma ranked_year_has_citations:
  assumes "citation_stats fl (citations_by_year works) = Inr stats" and "w \<in> set works"
    and y: "publication_year w = Some y" and s: "map_of stats y = Some s"
  shows "\<exists>c. cited_by_count w = Some c"
proof -
  from citation_stats_keys [OF assms(1)] have
    keys: "map fst stats = map fst (citations_by_year works)"
    and ints: "\<forall>(y, cites) \<in> set (citations_by_year works). None \<notin> set cites"
    by simp_all
  from s have "y \<in> fst ` set stats"
    by (metis map_of_eq_None_iff option.distinct(1))
  then have in_keys: "y \<in> fst ` set (citations_by_year works)"
    using keys by (metis set_map)
  have "0 \<notin> fst ` set (citations_by_year works)"
    unfolding citations_by_year_def by (rule fold_add_citation_no_zero) simp
  with in_keys have "y \<noteq> 0"
    by auto
  from fold_add_citation_adds [OF assms(2) y this, of "[]"] obtain cites where
    cites: "map_of (citations_by_year works) y = Some cites" "cited_by_count w \<in> set cites"
    by (auto simp add: citations_by_year_def)
  from cites(1) have "(y, cites) \<in> set (citations_by_year works)"
    by (rule map_of_SomeD)
  with ints have "None \<notin> set cites"
    by auto
  with cites(2) have "cited_by_count w \<noteq> None"
    by metis
  then show ?thesis
    by blast
qed

lemma add_scores_raises_only_from_floats:
  assumes "citation_stats fl (citations_by_year works) = Inr stats"
    and "\<forall>a b. \<exists>x. int_truediv fl a b = Inr x"
    and "\<forall>x n. \<exists>z. float_sub_int fl x n = Inr z"
    and "\<forall>x n. \<exists>z. float_add_int fl x n = Inr z"
  shows "\<exists>works'. add_scores fl stats works = Inr works'"
proof (rule add_scores_total, rule ballI)
  fix w
  assume w: "w \<in> set works"
  show "\<exists>sc. score_of fl stats w = Inr sc"
  proof (cases "\<exists>y s. publication_year w = Some y \<and> map_of stats y = Some s \<and>
      gt_zero fl (average s)")
    case False
    then show ?thesis
      by (auto simp add: score_of_def split: option.splits)
  next
    case True
    then obtain y s where y: "publication_year w = Some y" and s: "map_of stats y = Some s"
      and pos: "gt_zero fl (average s)"
      by blast
    from ranked_year_has_citations [OF assms(1) w y s] obtain c where
      c: "cited_by_count w = Some c"
      by blast
    from assms(2) obtain q where q: "int_truediv fl c 2025 = Inr q"
      by blast
    from assms(3) obtain d where d: "float_sub_int fl q y = Inr d"
      by blast
    from assms(4) obtain z where z: "float_add_int fl d 1 = Inr z"
      by blast
    show ?thesis
      using y s pos c q d z by (simp add: score_of_def)
  qed
qed

lemma sample_citation_stats:
  "citation_stats exact_ops (citations_by_year sample_works) = Inr sample_stats"
  by (simp add: sample_works_def sample_stats_def citations_by_year_def add_citation_def
      record_of_def mean_def median_of_def exact_ops_def Let_def)

lemma sample_add_scores:
  "add_scores exact_ops sample_stats sample_works =
     Inr [\<lparr>title = Some ''A'', publication_year = Some 2024, cited_by_count = Some 2025,
           authors = [], normalized_citation_score = Some (- 2022)\<rparr>,
          \<lparr>title = Some ''B'', publication_year = Some 2024, cited_by_count = Some 0,
           authors = [], normalized_citation_score = Some (- 2023)\<rparr>,
          \<lparr>title = Some ''D'', publication_year = Some 2020, cited_by_count = Some 0,
           authors = [], normalized_citation_score = None\<rparr>,
          \<lparr>title = Some ''E'', publication_year = None, cited_by_count = None,
           authors = [], normalized_citation_score = None\<rparr>]"
  by (simp add: sample_works_def sample_stats_def record_of_def score_of_def gt_zero_def
      exact_ops_def work_record.defs)

section \<open>Claims\<close>

text \<open>
  C1, as the specification has it: a status outside the 200 range aborts the loop without a
  retry and the run signals the failure to its caller (an error raised, a non-zero exit),
  the records of the earlier pages staying on disk. On the three-page listing whose second
  page answers 500 the OpenAlex script keeps the two records of page 1, prints the status
  and \<^verbatim>\<open>Finished.\<close>, and ends without raising anything: the failure is not signalled.
\<close>

theorem C1_page_2_failure_ends_normally:
  "pyalex_script 5 three_pages_fail2 None =
     Some \<lparr>disk = Some [record_of ''A'' 2020 1, record_of ''B'' 2020 2],
           trace = [PrintStarting 0, Request ''*'', PrintSaved 2 2, Sleep, Request ''c1'',
                    PrintError 500, PrintFinished],
           raised = None\<rparr>"
  by (simp add: pyalex_defs fixture_defs Let_def numeral_eq_Suc)

text \<open>
  C1, as the code has it: in \<^verbatim>\<open>pyalex-test.py\<close> a status other than 200 ends the loop in
  that pass, after the one request and with no retry, leaves the file as the earlier
  passes wrote it, prints the status and lets the script finish normally. So when the
  remote source serves any number of pages and then answers with such a status, the file
  holds what it held at the start followed by the records of exactly those pages (it is
  untouched if the first request fails), and nothing is raised.
\<close>

theorem C1_non_200_breaks_and_script_finishes:
  "(status_code (requests_get cursor) \<noteq> 200 \<longrightarrow>
      main_loop (Suc fuel) requests_get cursor all_works output_file tr =
        Some \<lparr>disk = output_file,
              trace = tr @ [Request cursor, PrintError (status_code (requests_get cursor)),
                            PrintFinished],
              raised = None\<rparr>) \<and>
   (serves_pages requests_get ''*'' pages failing \<and>
    status_code (requests_get failing) \<noteq> 200 \<longrightarrow>
      pyalex_script (Suc (length pages + fuel)) requests_get saved =
        Some \<lparr>disk = (if pages = [] then saved
                       else Some (load_all_works saved @ pages_records pages)),
              trace = [PrintStarting (length (load_all_works saved))] @
                      pages_trace ''*'' (length (load_all_works saved)) pages @
                      [Request failing, PrintError (status_code (requests_get failing)),
                       PrintFinished],
              raised = None\<rparr>)"
  using pyalex_script_fails_after_pages [of requests_get pages failing fuel saved]
  by (simp add: loop_body_non_200)

theorem C1_non_200_breaks_and_script_finishes_witness:
  "serves_pages three_pages_fail2 ''*''
     [\<lparr>results = Some [work_of ''A'' 2020 1, work_of ''B'' 2020 2],
       meta = Some \<lparr>next_cursor = Some ''c1''\<rparr>\<rparr>] ''c1'' \<and>
   status_code (three_pages_fail2 ''c1'') \<noteq> 200 \<and>
   main_loop (Suc 0) three_pages_fail2 ''c1'' [] None [] =
     Some \<lparr>disk = None, trace = [Request ''c1'', PrintError 500, PrintFinished], raised = None\<rparr> \<and>
   pyalex_script (Suc (Suc 0)) three_pages_fail2 None =
     Some \<lparr>disk = Some [record_of ''A'' 2020 1, record_of ''B'' 2020 2],
           trace = [PrintStarting 0, Request ''*'', PrintSaved 2 2, Sleep, Request ''c1'',
                    PrintError 500, PrintFinished],
           raised = None\<rparr>"
  using C1_non_200_breaks_and_script_finishes
          [where requests_get = three_pages_fail2 and cursor = "''c1''" and fuel = 0
             and all_works = "[]" and output_file = None and tr = "[]" and failing = "''c1''"
             and saved = None
             and pages = "[\<lparr>results = Some [work_of ''A'' 2020 1, work_of ''B'' 2020 2],
                            meta = Some \<lparr>next_cursor = Some ''c1''\<rparr>\<rparr>]"]
  by (simp add: fixture_defs get_next_cursor_def get_results_def build_record_def
      load_all_works_def pages_records_def)

text \<open>
  C2: a run interrupted after some pages and restarted ends with the collection of an
  uninterrupted run. Evaluated on the code: the OpenAlex script interrupted after its first
  page and restarted loads the two saved records, starts again from the cursor
  \<^verbatim>\<open>"*"\<close> and ends with eight records, the first page twice, where the uninterrupted
  run has six. \<^verbatim>\<open>search_ml_medicine_articles\<close> interrupted after its first batch and
  restarted finds the term in \<^verbatim>\<open>searched_combos\<close> and returns the two saved articles,
  where the uninterrupted run returns six.
\<close>

theorem C2_resumed_run_differs_from_uninterrupted_run:
  "pyalex_script 5 three_pages None =
     Some \<lparr>disk = Some [record_of ''A'' 2020 1, record_of ''B'' 2020 2, record_of ''C'' 2021 3,
                        record_of ''D'' 2021 4, record_of ''E'' 2022 5, record_of ''F'' 2022 6],
           trace = [PrintStarting 0, Request ''*'', PrintSaved 2 2, Sleep, Request ''c1'',
                    PrintSaved 2 4, Sleep, Request ''c2'', PrintSaved 2 6, PrintNoMorePages,
                    PrintFinished],
           raised = None\<rparr> \<and>
   file_after (loop_body three_pages ''*'' [] None [PrintStarting 0]) =
     Some [record_of ''A'' 2020 1, record_of ''B'' 2020 2] \<and>
   pyalex_script 5 three_pages (Some [record_of ''A'' 2020 1, record_of ''B'' 2020 2]) =
     Some \<lparr>disk = Some [record_of ''A'' 2020 1, record_of ''B'' 2020 2, record_of ''A'' 2020 1,
                        record_of ''B'' 2020 2, record_of ''C'' 2021 3, record_of ''D'' 2021 4,
                        record_of ''E'' 2022 5, record_of ''F'' 2022 6],
           trace = [PrintStarting 2, Request ''*'', PrintSaved 2 4, Sleep, Request ''c1'',
                    PrintSaved 2 6, Sleep, Request ''c2'', PrintSaved 2 8, PrintNoMorePages,
                    PrintFinished],
           raised = None\<rparr> \<and>
   returned (search_ml_medicine_articles pmc_six 2 None None) =
     Inr [(''11'', ''article 11''), (''12'', ''article 12''), (''13'', ''article 13''),
          (''14'', ''article 14''), (''15'', ''article 15''), (''16'', ''article 16'')] \<and>
   s_progress_file
     (fold (batch_step pmc_six ''Artificial Intelligence'' ''Artificial Intelligence'' 6 2) [0]
        (load_progress None)) =
     Some \<lparr>p_searched_combos = [''Artificial Intelligence''],
           p_articles = [(''11'', ''article 11''), (''12'', ''article 12'')]\<rparr> \<and>
   returned
     (search_ml_medicine_articles pmc_six 2
        (Some \<lparr>p_searched_combos = [''Artificial Intelligence''],
               p_articles = [(''11'', ''article 11''), (''12'', ''article 12'')]\<rparr>) None) =
     Inr [(''11'', ''article 11''), (''12'', ''article 12'')]"
  by (simp add: pyalex_defs fixture_defs search_defs py_range_6_2 pubmed_defs fixture2_defs
      fixture3_defs Let_def numeral_eq_Suc)

text \<open>
  C3, as the specification has it: identifiers are unique in the accumulated collection, and
  fetching again a page already persisted creates no duplicate. The OpenAlex script run a
  second time on the same single page appends its two records again.
\<close>

theorem C3_refetched_page_is_appended_again:
  "pyalex_script 1 one_page None =
     Some \<lparr>disk = Some [record_of ''A'' 2020 1, record_of ''B'' 2020 2],
           trace = [PrintStarting 0, Request ''*'', PrintSaved 2 2, PrintNoMorePages,
                    PrintFinished],
           raised = None\<rparr> \<and>
   pyalex_script 1 one_page (Some [record_of ''A'' 2020 1, record_of ''B'' 2020 2]) =
     Some \<lparr>disk = Some [record_of ''A'' 2020 1, record_of ''B'' 2020 2, record_of ''A'' 2020 1,
                        record_of ''B'' 2020 2],
           trace = [PrintStarting 2, Request ''*'', PrintSaved 2 4, PrintNoMorePages,
                    PrintFinished],
           raised = None\<rparr>"
  by (simp add: pyalex_defs fixture_defs Let_def)

text \<open>
  C3, as the code has it: in \<^verbatim>\<open>search_ml_medicine_articles\<close> the accumulated collection
  is a dictionary keyed by the article identifier. A pass of the batch loop keeps the
  identifiers unique, and so does a whole call started from a progress file whose
  identifiers are unique; inserting an article whose identifier is present replaces its
  data where it stands and adds no entry; and inserting the items of a summary a second
  time changes nothing.
\<close>

theorem C3_article_ids_stay_unique:
  "(distinct (map fst (s_all_articles st)) \<longrightarrow>
      distinct (map fst (s_all_articles
        (batch_step searcher query combo_key total_results batch_size start st)))) \<and>
   ((case saved_progress of None \<Rightarrow> True | Some p \<Rightarrow> distinct (map fst (p_articles p))) \<and>
    returned (search_ml_medicine_articles searcher batch_size saved_progress saved_output) =
      Inr articles \<longrightarrow>
      distinct (map fst articles)) \<and>
   (article_id \<noteq> ''uids'' \<and> article_id \<in> fst ` set al \<longrightarrow>
      map fst (add_articles [(article_id, article_data)] al) = map fst al \<and>
      map_of (add_articles [(article_id, article_data)] al) article_id = Some article_data) \<and>
   (distinct (map fst items) \<longrightarrow>
      add_articles items (add_articles items al) = add_articles items al)"
  using batch_step_distinct [of st searcher query combo_key total_results batch_size start]
    search_ml_medicine_articles_distinct [of saved_progress searcher batch_size saved_output articles]
    add_articles_present_key [of article_id al article_data]
    add_articles_again [of items al]
  by blast

theorem C3_article_ids_stay_unique_witness:
  "distinct (map fst [(''11'', ''old'')]) \<and>
   s_all_articles
     (batch_step pmc_six ''q'' ''q'' 6 2 0
        \<lparr>s_searched_combos = [], s_all_articles = [(''11'', ''old'')], s_progress_file = None\<rparr>) =
     [(''11'', ''article 11''), (''12'', ''article 12'')] \<and>
   distinct (map fst [(''11'', ''article 11''), (''12'', ''article 12''), (''13'', ''article 13''),
          (''14'', ''article 14''), (''15'', ''article 15''), (''16'', ''article 16'')]) \<and>
   map fst (add_articles [(''11'', ''new'')] [(''11'', ''old'')]) = [''11''] \<and>
   map_of (add_articles [(''11'', ''new'')] [(''11'', ''old'')]) ''11'' = Some ''new'' \<and>
   add_articles [(''11'', ''new'')] (add_articles [(''11'', ''new'')] [(''11'', ''old'')]) =
     add_articles [(''11'', ''new'')] [(''11'', ''old'')]"
  using C3_article_ids_stay_unique
          [where st = "\<lparr>s_searched_combos = [], s_all_articles = [(''11'', ''old'')],
                         s_progress_file = None\<rparr>"
             and searcher = pmc_six and query = "''q''" and combo_key = "''q''"
             and total_results = 6 and batch_size = 2 and start = 0
             and saved_progress = None and saved_output = None
             and articles = "[(''11'', ''article 11''), (''12'', ''article 12''),
                  (''13'', ''article 13''), (''14'', ''article 14''), (''15'', ''article 15''),
                  (''16'', ''article 16'')]"
             and article_id = "''11''" and article_data = "''new''"
             and al = "[(''11'', ''old'')]" and items = "[(''11'', ''new'')]"]
  by (simp add: pubmed_defs fixture2_defs fixture3_defs Let_def)

text \<open>
  C4, as the specification has it: the loop terminates exactly when the remote source
  returns no next-page token or an empty result list. A first page with no results and a
  next cursor does not end the OpenAlex loop: after one pass it is still running, and the
  second pass requests the next cursor.
\<close>

theorem C4_empty_page_does_not_end_the_loop:
  "pyalex_script 1 empty_first_page None = None \<and>
   pyalex_script 2 empty_first_page None =
     Some \<lparr>disk = Some [record_of ''A'' 2020 1],
           trace = [PrintStarting 0, Request ''*'', PrintSaved 0 0, Sleep, Request ''c1'',
                    PrintSaved 1 1, PrintNoMorePages, PrintFinished],
           raised = None\<rparr>"
  by (simp add: pyalex_defs fixture_defs Let_def numeral_eq_Suc)

text \<open>
  C4, as the code has it: a pass of the OpenAlex loop is the last one exactly when the
  status is not 200, or the body is not JSON, or the page has no next cursor (absent, null
  or empty); otherwise the loop goes on from the next cursor with the page's records
  appended. If the first answer has no next cursor the script ends after that one request.
\<close>

theorem C4_loop_ends_on_failure_or_missing_cursor:
  "((main_loop (Suc 0) requests_get cursor all_works output_file tr \<noteq> None) =
      (status_code (requests_get cursor) \<noteq> 200 \<or> json_body (requests_get cursor) = None \<or>
       (\<exists>data. json_body (requests_get cursor) = Some data \<and>
          (get_next_cursor data = None \<or> get_next_cursor data = Some [])))) \<and>
   (status_code (requests_get cursor) = 200 \<and> json_body (requests_get cursor) = Some d \<and>
    get_next_cursor d = Some nxt \<and> nxt \<noteq> [] \<longrightarrow>
      main_loop (Suc fuel) requests_get cursor all_works output_file tr =
        main_loop fuel requests_get nxt (all_works @ map build_record (get_results d))
          (Some (all_works @ map build_record (get_results d)))
          (tr @ [Request cursor,
                 PrintSaved (length (get_results d)) (length all_works + length (get_results d)),
                 Sleep])) \<and>
   (status_code (requests_get ''*'') = 200 \<and> json_body (requests_get ''*'') = Some first \<and>
    (get_next_cursor first = None \<or> get_next_cursor first = Some []) \<longrightarrow>
      pyalex_script (Suc fuel) requests_get output_file =
        Some \<lparr>disk = Some (load_all_works output_file @ map build_record (get_results first)),
              trace = [PrintStarting (length (load_all_works output_file)), Request ''*'',
                       PrintSaved (length (get_results first))
                         (length (load_all_works output_file) + length (get_results first)),
                       PrintNoMorePages, PrintFinished],
              raised = None\<rparr>)"
proof (intro conjI impI)
  show "(main_loop (Suc 0) requests_get cursor all_works output_file tr \<noteq> None) =
      (status_code (requests_get cursor) \<noteq> 200 \<or> json_body (requests_get cursor) = None \<or>
       (\<exists>data. json_body (requests_get cursor) = Some data \<and>
          (get_next_cursor data = None \<or> get_next_cursor data = Some [])))"
    by (auto simp add: loop_body_def Let_def split: option.splits)
next
  assume "status_code (requests_get cursor) = 200 \<and> json_body (requests_get cursor) = Some d \<and>
    get_next_cursor d = Some nxt \<and> nxt \<noteq> []"
  then show "main_loop (Suc fuel) requests_get cursor all_works output_file tr =
        main_loop fuel requests_get nxt (all_works @ map build_record (get_results d))
          (Some (all_works @ map build_record (get_results d)))
          (tr @ [Request cursor,
                 PrintSaved (length (get_results d)) (length all_works + length (get_results d)),
                 Sleep])"
    by (simp add: loop_body_next_page)
next
  assume "status_code (requests_get ''*'') = 200 \<and> json_body (requests_get ''*'') = Some first \<and>
    (get_next_cursor first = None \<or> get_next_cursor first = Some [])"
  then show "pyalex_script (Suc fuel) requests_get output_file =
        Some \<lparr>disk = Some (load_all_works output_file @ map build_record (get_results first)),
              trace = [PrintStarting (length (load_all_works output_file)), Request ''*'',
                       PrintSaved (length (get_results first))
                         (length (load_all_works output_file) + length (get_results first)),
                       PrintNoMorePages, PrintFinished],
              raised = None\<rparr>"
    by (simp add: pyalex_script_def loop_body_last_page Let_def)
qed

theorem C4_loop_ends_on_failure_or_missing_cursor_witness:
  "main_loop (Suc 0) three_pages ''c2'' [] None [] \<noteq> None \<and>
   main_loop (Suc 0) three_pages ''c1'' [] None [] = None \<and>
   main_loop (Suc (Suc 0)) three_pages ''c1'' [] None [] =
     main_loop (Suc 0) three_pages ''c2''
       [record_of ''C'' 2021 3, record_of ''D'' 2021 4]
       (Some [record_of ''C'' 2021 3, record_of ''D'' 2021 4])
       [Request ''c1'', PrintSaved 2 2, Sleep] \<and>
   pyalex_script (Suc 0) one_page None =
     Some \<lparr>disk = Some [record_of ''A'' 2020 1, record_of ''B'' 2020 2],
           trace = [PrintStarting 0, Request ''*'', PrintSaved 2 2, PrintNoMorePages,
                    PrintFinished],
           raised = None\<rparr>"
  using C4_loop_ends_on_failure_or_missing_cursor
          [where requests_get = three_pages and cursor = "''c2''" and all_works = "[]"
             and output_file = None and tr = "[]" and fuel = 0 and nxt = "''c2''"
             and d = "\<lparr>results = None, meta = None\<rparr>"
             and first = "\<lparr>results = None, meta = None\<rparr>"]
        C4_loop_ends_on_failure_or_missing_cursor
          [where requests_get = three_pages and cursor = "''c1''" and all_works = "[]"
             and output_file = None and tr = "[]" and fuel = "Suc 0" and nxt = "''c2''"
             and d = "\<lparr>results = Some [work_of ''C'' 2021 3, work_of ''D'' 2021 4],
                      meta = Some \<lparr>next_cursor = Some ''c2''\<rparr>\<rparr>"
             and first = "\<lparr>results = None, meta = None\<rparr>"]
        C4_loop_ends_on_failure_or_missing_cursor
          [where requests_get = one_page and cursor = "''*''" and all_works = "[]"
             and output_file = None and tr = "[]" and fuel = 0 and nxt = "''c2''"
             and d = "\<lparr>results = None, meta = None\<rparr>"
             and first = "\<lparr>results = Some [work_of ''A'' 2020 1, work_of ''B'' 2020 2],
                          meta = Some \<lparr>next_cursor = None\<rparr>\<rparr>"]
  by (simp add: fixture_defs pyalex_defs Let_def numeral_2_eq_2)

text \<open>
  C5, as the specification has it: every checkpoint overwrites one file wholesale, so the
  file after a page is the accumulated state and does not depend on what the file held
  before. \<^verbatim>\<open>main.py\<close> opens its file in append mode and writes every batch
  accumulated so far: what the file held stays, and with two batches the first is
  written three times before the \<^verbatim>\<open>None\<close> batch raises.
\<close>

theorem C5_append_mode_keeps_prior_contents:
  "pmids_file_after (pmid_loop_body two_batches 30294 [] [''old''] []) = [''old'', ''111''] \<and>
   pmids_file_after (pmid_loop_body two_batches 30294 [] [] []) = [''111''] \<and>
   pmid_script 3 two_batches [] =
     Some \<lparr>pmids_file = [''111'', ''111'', ''222'', ''111'', ''222''],
           pm_trace = [Query 30294, PrintSuccess, Sleep5, Query 30794, PrintSuccess, Sleep5,
                       Query 31294],
           pm_raised = Some TypeError\<rparr>"
  by (simp add: pmid_script_def pmid_loop_body_def two_batches_def Let_def numeral_eq_Suc)

text \<open>
  C5, as the code has it: in \<^verbatim>\<open>pyalex-test.py\<close> a successfully processed page leaves
  the output file holding exactly the accumulated list (no token is stored), whatever the
  file held before; in \<^verbatim>\<open>get-pubmed.py\<close> every pass of the batch loop leaves the
  progress file holding exactly the in-memory \<^verbatim>\<open>searched_combos\<close> and
  \<^verbatim>\<open>all_articles\<close>, whatever it held before.
\<close>

theorem C5_checkpoint_overwrites_with_accumulated_state:
  "(status_code (requests_get cursor) = 200 \<and> json_body (requests_get cursor) = Some data \<longrightarrow>
      file_after (loop_body requests_get cursor all_works output_file tr) =
        Some (all_works @ map build_record (get_results data)) \<and>
      file_after (loop_body requests_get cursor all_works other_file tr) =
        file_after (loop_body requests_get cursor all_works output_file tr)) \<and>
   s_progress_file (batch_step searcher query combo_key total_results batch_size start st) =
     Some \<lparr>p_searched_combos =
             s_searched_combos (batch_step searcher query combo_key total_results batch_size start st),
           p_articles =
             s_all_articles (batch_step searcher query combo_key total_results batch_size start st)\<rparr> \<and>
   s_progress_file
     (batch_step searcher query combo_key total_results batch_size start
        (st\<lparr>s_progress_file := other_progress\<rparr>)) =
     s_progress_file (batch_step searcher query combo_key total_results batch_size start st)"
  using batch_step_progress_file [of searcher query combo_key total_results batch_size start st]
  by (auto simp add: batch_step_ignores_file loop_body_def Let_def split: option.splits)

theorem C5_checkpoint_overwrites_with_accumulated_state_witness:
  "status_code (three_pages ''*'') = 200 \<and>
   file_after (loop_body three_pages ''*'' [] (Some [record_of ''Z'' 1999 9]) []) =
     Some [record_of ''A'' 2020 1, record_of ''B'' 2020 2] \<and>
   file_after (loop_body three_pages ''*'' [] None []) =
     file_after (loop_body three_pages ''*'' [] (Some [record_of ''Z'' 1999 9]) [])"
  using C5_checkpoint_overwrites_with_accumulated_state
          [where requests_get = three_pages and cursor = "''*''" and all_works = "[]"
             and output_file = "Some [record_of ''Z'' 1999 9]" and other_file = None
             and tr = "[]"
             and data = "\<lparr>results = Some [work_of ''A'' 2020 1, work_of ''B'' 2020 2],
                         meta = Some \<lparr>next_cursor = Some ''c1''\<rparr>\<rparr>"
             and searcher = no_esearchresult and query = "''q''" and combo_key = "''q''"
             and total_results = 4 and batch_size = 2 and start = 0
             and other_progress = None
             and st = "\<lparr>s_searched_combos = [], s_all_articles = [(''7'', ''seven'')],
                        s_progress_file = None\<rparr>"]
  by (simp add: fixture_defs get_results_def build_record_def)




text \<open>
  C7: a remote source of three pages of two records each gives, in an uninterrupted run
  from an empty state, exactly the six records, page after page and in the order of each
  page. For \<^verbatim>\<open>pyalex-test.py\<close> the pages are the answers to the cursors handed from
  one to the next; for \<^verbatim>\<open>search_ml_medicine_articles\<close> the source is a listing of
  six distinct identifiers read in batches of two.
\<close>

theorem C7_three_pages_of_two_in_encounter_order:
  assumes "status_code (requests_get ''*'') = 200"
    and "json_body (requests_get ''*'') = Some page_a"
    and "get_results page_a = [wka, wkb]"
    and "get_next_cursor page_a = Some cursor_b" and "cursor_b \<noteq> []"
    and "status_code (requests_get cursor_b) = 200"
    and "json_body (requests_get cursor_b) = Some page_b"
    and "get_results page_b = [wkc, wkd]"
    and "get_next_cursor page_b = Some cursor_c" and "cursor_c \<noteq> []"
    and "status_code (requests_get cursor_c) = 200"
    and "json_body (requests_get cursor_c) = Some page_c"
    and "get_results page_c = [wke, wkf]"
    and "get_next_cursor page_c = None"
    and "distinct [ida, idb, idc, idd, ide, idf]"
    and "''uids'' \<notin> set [ida, idb, idc, idd, ide, idf]"
  shows "pyalex_script (Suc (Suc (Suc fuel))) requests_get None =
           Some \<lparr>disk = Some (map build_record [wka, wkb, wkc, wkd, wke, wkf]),
                 trace = [PrintStarting 0, Request ''*'', PrintSaved 2 2, Sleep, Request cursor_b,
                          PrintSaved 2 4, Sleep, Request cursor_c, PrintSaved 2 6, PrintNoMorePages,
                          PrintFinished],
                 raised = None\<rparr> \<and>
         returned (search_ml_medicine_articles (ncbi_listing [ida, idb, idc, idd, ide, idf] data) 2
                     None saved_output) =
           Inr (map (\<lambda>i. (i, data i)) [ida, idb, idc, idd, ide, idf]) \<and>
         output_after (search_ml_medicine_articles (ncbi_listing [ida, idb, idc, idd, ide, idf] data) 2
                         None saved_output) =
           Some (map data [ida, idb, idc, idd, ide, idf])"
proof -
  have a: "pyalex_script (Suc (Suc (Suc fuel))) requests_get None =
           Some \<lparr>disk = Some (map build_record [wka, wkb, wkc, wkd, wke, wkf]),
                 trace = [PrintStarting 0, Request ''*'', PrintSaved 2 2, Sleep, Request cursor_b,
                          PrintSaved 2 4, Sleep, Request cursor_c, PrintSaved 2 6, PrintNoMorePages,
                          PrintFinished],
                 raised = None\<rparr>"
    using assms(1-14)
    by (simp add: pyalex_script_def load_all_works_def loop_body_next_page loop_body_last_page)
  have b: "search_ml_medicine_articles (ncbi_listing [ida, idb, idc, idd, ide, idf] data) 2
                     None saved_output =
      \<lparr>returned = Inr (map (\<lambda>i. (i, data i)) [ida, idb, idc, idd, ide, idf]),
       progress_after =
         Some \<lparr>p_searched_combos = replicate 4 ''Artificial Intelligence'',
               p_articles = map (\<lambda>i. (i, data i)) [ida, idb, idc, idd, ide, idf]\<rparr>,
       output_after = Some (map data [ida, idb, idc, idd, ide, idf])\<rparr>"
    using assms(15,16)
    by (auto simp add: search_defs py_range_6_2 pubmed_defs fixture2_defs Let_def numeral_eq_Suc)
  show ?thesis
    using a b by simp
qed

theorem C7_three_pages_of_two_in_encounter_order_witness:
  "pyalex_script 3 three_pages None =
     Some \<lparr>disk = Some [record_of ''A'' 2020 1, record_of ''B'' 2020 2, record_of ''C'' 2021 3,
                        record_of ''D'' 2021 4, record_of ''E'' 2022 5, record_of ''F'' 2022 6],
           trace = [PrintStarting 0, Request ''*'', PrintSaved 2 2, Sleep, Request ''c1'',
                    PrintSaved 2 4, Sleep, Request ''c2'', PrintSaved 2 6, PrintNoMorePages,
                    PrintFinished],
           raised = None\<rparr> \<and>
   returned (search_ml_medicine_articles pmc_six 2 None None) =
     Inr [(''11'', ''article 11''), (''12'', ''article 12''), (''13'', ''article 13''),
          (''14'', ''article 14''), (''15'', ''article 15''), (''16'', ''article 16'')] \<and>
   output_after (search_ml_medicine_articles pmc_six 2 None None) =
     Some [''article 11'', ''article 12'', ''article 13'', ''article 14'', ''article 15'',
           ''article 16'']"
proof -
  let ?pa = "\<lparr>results = Some [work_of ''A'' 2020 1, work_of ''B'' 2020 2],
              meta = Some \<lparr>next_cursor = Some ''c1''\<rparr>\<rparr>"
  let ?pb = "\<lparr>results = Some [work_of ''C'' 2021 3, work_of ''D'' 2021 4],
              meta = Some \<lparr>next_cursor = Some ''c2''\<rparr>\<rparr>"
  let ?pc = "\<lparr>results = Some [work_of ''E'' 2022 5, work_of ''F'' 2022 6],
              meta = Some \<lparr>next_cursor = None\<rparr>\<rparr>"
  have h1: "status_code (three_pages ''*'') = 200"
    and h2: "json_body (three_pages ''*'') = Some ?pa"
    and h3: "get_results ?pa = [work_of ''A'' 2020 1, work_of ''B'' 2020 2]"
    and h4: "get_next_cursor ?pa = Some ''c1''" and h5: "''c1'' \<noteq> []"
    and h6: "status_code (three_pages ''c1'') = 200"
    and h7: "json_body (three_pages ''c1'') = Some ?pb"
    and h8: "get_results ?pb = [work_of ''C'' 2021 3, work_of ''D'' 2021 4]"
    and h9: "get_next_cursor ?pb = Some ''c2''" and h10: "''c2'' \<noteq> []"
    and h11: "status_code (three_pages ''c2'') = 200"
    and h12: "json_body (three_pages ''c2'') = Some ?pc"
    and h13: "get_results ?pc = [work_of ''E'' 2022 5, work_of ''F'' 2022 6]"
    and h14: "get_next_cursor ?pc = None"
    by (simp_all add: three_pages_def ok_page_def get_results_def get_next_cursor_def)
  have h15: "distinct [''11'', ''12'', ''13'', ''14'', ''15'', ''16'']"
    and h16: "''uids'' \<notin> set [''11'', ''12'', ''13'', ''14'', ''15'', ''16'']"
    by simp_all
  show ?thesis
    using C7_three_pages_of_two_in_encounter_order
            [OF h1 h2 h3 h4 h5 h6 h7 h8 h9 h10 h11 h12 h13 h14 h15 h16, of 0 article_of None]
    by (simp add: pmc_six_def six_ids_def article_of_def build_record_def work_of_def
        record_of_def numeral_3_eq_3)
qed

text \<open>
  C8: in the analysis script, when the statistics by year exist and the scoring loop gets
  through, every work has its field and is otherwise unchanged. For a work whose year is a
  key of \<^verbatim>\<open>citation_stats\<close> with an average above 0 the score is
  \<^verbatim>\<open>cited_by_count / 2025 - year + 1\<close> as the interpreter evaluates it: the count
  divided by 2025 first, the year subtracted from that quotient, then 1 added (so it is
  not the count divided by the age, \<^verbatim>\<open>2025 - year + 1\<close>). For every other work the
  field is \<^verbatim>\<open>None\<close>.
\<close>

theorem C8_normalized_citation_score_as_written:
  assumes "citation_stats fl (citations_by_year works) = Inr stats"
    and "add_scores fl stats works = Inr works'"
    and "i < length works"
  shows "scored (analyze fl works) = works' \<and>
         length works' = length works \<and>
         work_record.truncate (works' ! i) = works ! i \<and>
         (\<forall>y s. publication_year (works ! i) = Some y \<and> map_of stats y = Some s \<and>
                gt_zero fl (average s) \<longrightarrow>
            (\<exists>c divided subtracted score.
                cited_by_count (works ! i) = Some c \<and>
                int_truediv fl c 2025 = Inr divided \<and>
                float_sub_int fl divided y = Inr subtracted \<and>
                float_add_int fl subtracted 1 = Inr score \<and>
                normalized_citation_score (works' ! i) = Some score)) \<and>
         ((\<nexists>y s. publication_year (works ! i) = Some y \<and> map_of stats y = Some s \<and>
                  gt_zero fl (average s)) \<longrightarrow>
            normalized_citation_score (works' ! i) = None)"
proof -
  have an: "scored (analyze fl works) = works'"
    using assms(1,2) by (simp add: analyze_def split: prod.splits)
  have len: "length works' = length works"
    using assms(2) by (rule add_scores_length)
  from add_scores_nth [OF assms(2,3)] have
    sc: "score_of fl stats (works ! i) = Inr (normalized_citation_score (works' ! i))"
    and tr: "work_record.truncate (works' ! i) = works ! i"
    by simp_all
  have yes: "\<forall>y s. publication_year (works ! i) = Some y \<and> map_of stats y = Some s \<and>
                gt_zero fl (average s) \<longrightarrow>
            (\<exists>c divided subtracted score.
                cited_by_count (works ! i) = Some c \<and>
                int_truediv fl c 2025 = Inr divided \<and>
                float_sub_int fl divided y = Inr subtracted \<and>
                float_add_int fl subtracted 1 = Inr score \<and>
                normalized_citation_score (works' ! i) = Some score)"
    using sc by (auto simp add: score_of_def split: option.splits sum.splits)
  have no: "(\<nexists>y s. publication_year (works ! i) = Some y \<and> map_of stats y = Some s \<and>
                  gt_zero fl (average s)) \<longrightarrow>
            normalized_citation_score (works' ! i) = None"
    using sc by (auto simp add: score_of_def split: option.splits if_splits sum.splits)
  show ?thesis
    using an len tr yes no by blast
qed

theorem C8_normalized_citation_score_as_written_witness:
  "citation_stats exact_ops (citations_by_year sample_works) = Inr sample_stats \<and>
   scored (analyze exact_ops sample_works) ! 0 =
     \<lparr>title = Some ''A'', publication_year = Some 2024, cited_by_count = Some 2025,
      authors = [], normalized_citation_score = Some (- 2022)\<rparr> \<and>
   int_truediv exact_ops 2025 2025 = Inr 1 \<and>
   float_sub_int exact_ops 1 2024 = Inr (- 2023) \<and>
   float_add_int exact_ops (- 2023) 1 = Inr (- 2022) \<and>
   int_truediv exact_ops 2025 (2025 - 2024 + 1) = Inr (2025 / 2) \<and>
   (- 2022 :: rat) \<noteq> 2025 / 2 \<and>
   map normalized_citation_score (scored (analyze exact_ops sample_works)) =
     [Some (- 2022), Some (- 2023), None, None]"
proof -
  have i: "0 < length sample_works"
    by (simp add: sample_works_def)
  have a: "scored (analyze exact_ops sample_works) =
      [\<lparr>title = Some ''A'', publication_year = Some 2024, cited_by_count = Some 2025,
        authors = [], normalized_citation_score = Some (- 2022)\<rparr>,
       \<lparr>title = Some ''B'', publication_year = Some 2024, cited_by_count = Some 0,
        authors = [], normalized_citation_score = Some (- 2023)\<rparr>,
       \<lparr>title = Some ''D'', publication_year = Some 2020, cited_by_count = Some 0,
        authors = [], normalized_citation_score = None\<rparr>,
       \<lparr>title = Some ''E'', publication_year = None, cited_by_count = None,
        authors = [], normalized_citation_score = None\<rparr>]"
    by (simp add: analyze_def sample_citation_stats sample_add_scores split: prod.splits)
  have ops: "int_truediv exact_ops 2025 2025 = Inr 1"
    "float_sub_int exact_ops 1 2024 = Inr (- 2023)"
    "float_add_int exact_ops (- 2023) 1 = Inr (- 2022)"
    "int_truediv exact_ops 2025 2 = Inr (2025 / 2)"
    by (simp_all add: exact_ops_def)
  show ?thesis
    using C8_normalized_citation_score_as_written [OF sample_citation_stats sample_add_scores i]
    by (simp add: a sample_citation_stats ops)
qed

text \<open>
  C9, as the claim has it: after every run interrupted after at least one successful batch
  of a term, the persisted \<^verbatim>\<open>searched_combos\<close> holds the combo key several times. On
  the listing of six identifiers read in batches of two, the first batch succeeds, and a
  run interrupted right after it leaves a progress file with the key once; the resumed run
  skips the term and leaves the file as it is, still with the key once.
\<close>

theorem C9_one_successful_batch_leaves_the_key_once:
  "py_range 6 2 = Inr [0, 2, 4] \<and>
   try_batch pmc_six ''Artificial Intelligence'' (min 2 (6 - 0)) 0 [] =
     Inr [(''11'', ''article 11''), (''12'', ''article 12'')] \<and>
   s_progress_file
     (fold (batch_step pmc_six ''Artificial Intelligence'' ''Artificial Intelligence'' 6 2) [0]
        (load_progress None)) =
     Some \<lparr>p_searched_combos = [''Artificial Intelligence''],
           p_articles = [(''11'', ''article 11''), (''12'', ''article 12'')]\<rparr> \<and>
   count_list [''Artificial Intelligence''] ''Artificial Intelligence'' = 1 \<and>
   progress_after
     (search_ml_medicine_articles pmc_six 2
        (Some \<lparr>p_searched_combos = [''Artificial Intelligence''],
               p_articles = [(''11'', ''article 11''), (''12'', ''article 12'')]\<rparr>) None) =
     Some \<lparr>p_searched_combos = [''Artificial Intelligence''],
           p_articles = [(''11'', ''article 11''), (''12'', ''article 12'')]\<rparr>"
  by (simp add: py_range_6_2 search_defs pubmed_defs fixture2_defs fixture3_defs Let_def)

text \<open>
  C9, as the code has it: in \<^verbatim>\<open>search_ml_medicine_articles\<close> the combo key is appended
  to \<^verbatim>\<open>searched_combos\<close> and written to the progress file after every batch that
  raises nothing, and once more after the batch loop of the term. So a run interrupted
  after \<open>k\<close> passes of the batch loop, one of them successful, leaves a progress file that
  holds the key once for each successful pass, and from which any later run skips the
  term: it asks the remote service nothing and returns the articles saved so far. A term
  that runs to its end after at least one successful batch leaves the key at least twice.
\<close>

theorem C9_combo_key_recorded_after_every_batch:
  assumes "search searcher ml_term 0 0 = Inr (Some initial_results)"
    and "esearchresult initial_results = Some esr"
    and "es_count esr = Some total_results"
    and "truthy (webenv esr)" and "truthy (querykey esr)"
    and "py_range total_results batch_size = Inr starts"
    and "ml_term \<notin> set (s_searched_combos st)"
    and "ml_term \<in> set ml_terms"
    and "\<exists>start \<in> set (take k starts).
           \<not> isl (try_batch searcher ml_term (min batch_size (total_results - start)) start [])"
  shows
    "(\<exists>st'. process_term searcher batch_size ml_term st = Inr st' \<and>
        s_searched_combos st' =
          s_searched_combos st @
          replicate
            (Suc (length (filter (\<lambda>start.
               \<not> isl (try_batch searcher ml_term (min batch_size (total_results - start)) start []))
               starts)))
            ml_term \<and>
        s_progress_file st' =
          Some \<lparr>p_searched_combos = s_searched_combos st', p_articles = s_all_articles st'\<rparr> \<and>
        2 \<le> count_list (s_searched_combos st') ml_term) \<and>
     (\<exists>interrupted.
        interrupted =
          fold (batch_step searcher ml_term ml_term total_results batch_size) (take k starts) st \<and>
        s_progress_file interrupted =
          Some \<lparr>p_searched_combos =
                  s_searched_combos st @
                  replicate
                    (length (filter (\<lambda>start.
                       \<not> isl (try_batch searcher ml_term
                                (min batch_size (total_results - start)) start []))
                       (take k starts)))
                    ml_term,
                p_articles = s_all_articles interrupted\<rparr> \<and>
        search_ml_medicine_articles other_searcher other_batch_size
            (s_progress_file interrupted) output_file =
          \<lparr>returned = Inr (s_all_articles interrupted),
           progress_after = s_progress_file interrupted,
           output_after = Some (map snd (s_all_articles interrupted))\<rparr>)"
proof -
  let ?ok = "\<lambda>start.
    \<not> isl (try_batch searcher ml_term (min batch_size (total_results - start)) start [])"
  let ?step = "batch_step searcher ml_term ml_term total_results batch_size"
  from assms(9) obtain start where start: "start \<in> set (take k starts)" "?ok start"
    by blast
  then have pre: "filter ?ok (take k starts) \<noteq> []"
    by (auto simp add: filter_empty_conv)
  have "set (take k starts) \<subseteq> set starts"
    by (rule set_take_subset)
  with start have all: "filter ?ok starts \<noteq> []"
    by (auto simp add: filter_empty_conv)
  have nonempty: "take k starts \<noteq> []"
    using start(1) by (cases "take k starts") simp_all
  let ?done = "fold ?step starts st"
  let ?final = "\<lparr>s_searched_combos = s_searched_combos ?done @ [ml_term],
                 s_all_articles = s_all_articles ?done,
                 s_progress_file =
                   Some \<lparr>p_searched_combos = s_searched_combos ?done @ [ml_term],
                         p_articles = s_all_articles ?done\<rparr>\<rparr>"
  have run: "process_term searcher batch_size ml_term st = Inr ?final"
    using assms(1-7) by (rule process_term_run)
  have combos: "s_searched_combos ?done @ [ml_term] =
      s_searched_combos st @ replicate (Suc (length (filter ?ok starts))) ml_term"
    by (simp add: batch_loop_combos replicate_append_same)
  have cnt: "count_list (replicate n ml_term) ml_term = n" for n
    by (induction n) simp_all
  from all obtain n where "length (filter ?ok starts) = Suc n"
    by (cases "filter ?ok starts") auto
  then have twice: "2 \<le> count_list (s_searched_combos ?done @ [ml_term]) ml_term"
    unfolding combos by (simp add: cnt del: replicate.simps)
  have first: "\<exists>st'. process_term searcher batch_size ml_term st = Inr st' \<and>
        s_searched_combos st' =
          s_searched_combos st @ replicate (Suc (length (filter ?ok starts))) ml_term \<and>
        s_progress_file st' =
          Some \<lparr>p_searched_combos = s_searched_combos st', p_articles = s_all_articles st'\<rparr> \<and>
        2 \<le> count_list (s_searched_combos st') ml_term"
    using run combos twice by (intro exI [of _ ?final]) simp
  let ?int = "fold ?step (take k starts) st"
  have saved: "s_progress_file ?int =
      Some \<lparr>p_searched_combos =
              s_searched_combos st @ replicate (length (filter ?ok (take k starts))) ml_term,
            p_articles = s_all_articles ?int\<rparr>"
    using batch_loop_progress_file [OF nonempty, of searcher ml_term ml_term total_results batch_size st]
    by (simp add: batch_loop_combos)
  have terms: "set ml_terms = {ml_term}"
    using assms(8) by (simp add: ml_terms_def)
  have "ml_term \<in> set (replicate (length (filter ?ok (take k starts))) ml_term)"
    using pre by simp
  then have "set ml_terms \<subseteq>
      set (s_searched_combos st @ replicate (length (filter ?ok (take k starts))) ml_term)"
    unfolding terms by simp
  then have resume: "search_ml_medicine_articles other_searcher other_batch_size
        (s_progress_file ?int) output_file =
      \<lparr>returned = Inr (s_all_articles ?int), progress_after = s_progress_file ?int,
       output_after = Some (map snd (s_all_articles ?int))\<rparr>"
    unfolding saved by (subst resume_skips_searched_terms) simp_all
  show ?thesis
    using first saved resume by blast
qed

theorem C9_combo_key_recorded_after_every_batch_witness:
  "process_term pmc_six 2 ''Artificial Intelligence'' (load_progress None) =
     Inr \<lparr>s_searched_combos = replicate 4 ''Artificial Intelligence'',
          s_all_articles = map (\<lambda>i. (i, article_of i)) six_ids,
          s_progress_file =
            Some \<lparr>p_searched_combos = replicate 4 ''Artificial Intelligence'',
                  p_articles = map (\<lambda>i. (i, article_of i)) six_ids\<rparr>\<rparr> \<and>
   s_progress_file
     (fold (batch_step pmc_six ''Artificial Intelligence'' ''Artificial Intelligence'' 6 2)
        (take 1 [0, 2, 4]) (load_progress None)) =
     Some \<lparr>p_searched_combos = [''Artificial Intelligence''],
           p_articles = [(''11'', ''article 11''), (''12'', ''article 12'')]\<rparr> \<and>
   search_ml_medicine_articles no_esearchresult 7
     (Some \<lparr>p_searched_combos = [''Artificial Intelligence''],
            p_articles = [(''11'', ''article 11''), (''12'', ''article 12'')]\<rparr>) None =
     \<lparr>returned = Inr [(''11'', ''article 11''), (''12'', ''article 12'')],
      progress_after =
        Some \<lparr>p_searched_combos = [''Artificial Intelligence''],
              p_articles = [(''11'', ''article 11''), (''12'', ''article 12'')]\<rparr>,
      output_after = Some [''article 11'', ''article 12'']\<rparr>"
proof -
  let ?esr = "\<lparr>es_count = Some 6, webenv = Some ''MCID'', querykey = Some ''1'',
               idlist = Some []\<rparr>"
  have h1: "search pmc_six ''Artificial Intelligence'' 0 0 = Inr (Some \<lparr>esearchresult = Some ?esr\<rparr>)"
    by (simp add: search_def json_or_raise_def fixture2_defs fixture3_defs)
  have h2: "esearchresult \<lparr>esearchresult = Some ?esr\<rparr> = Some ?esr"
    by simp
  have h3: "es_count ?esr = Some 6"
    by simp
  have h4: "truthy (webenv ?esr)" and h5: "truthy (querykey ?esr)"
    by (simp_all add: truthy_def)
  have h6: "py_range 6 2 = Inr [0, 2, 4]"
    by (rule py_range_6_2)
  have h7: "''Artificial Intelligence'' \<notin> set (s_searched_combos (load_progress None :: string search_state))"
    by (simp add: load_progress_def)
  have h8: "''Artificial Intelligence'' \<in> set ml_terms"
    by (simp add: ml_terms_def)
  have h9: "\<exists>start \<in> set (take 1 [0, 2, 4]).
      \<not> isl (try_batch pmc_six ''Artificial Intelligence'' (min 2 (6 - start)) start [])"
    by (simp add: pubmed_defs fixture2_defs fixture3_defs)
  show ?thesis
    using C9_combo_key_recorded_after_every_batch
            [OF h1 h2 h3 h4 h5 h6 h7 h8 h9, of no_esearchresult 7 None]
    by (simp add: search_defs py_range_6_2 pubmed_defs fixture2_defs fixture3_defs Let_def
        numeral_eq_Suc)
qed

text \<open>
  C10: the fetch script stores \<^verbatim>\<open>None\<close> as the title of a work that has none, and
  the printing of the analysis script raises \<^verbatim>\<open>TypeError\<close> at a ranked work whose
  title is \<^verbatim>\<open>None\<close>. On the page whose only work has no title the fetch script
  writes such a record, and the analysis of that file scores it, prints the heading and
  fails: with the exact arithmetic, where its score is \<open>-2022\<close>, and with any float
  arithmetic in which the three operations of that score raise nothing.
\<close>

theorem C10_null_title_breaks_the_printing:
  "title (build_record (work\<lparr>w_title := None\<rparr>)) = None \<and>
   print_works i (ranked_work\<lparr>title := None\<rparr> # ranked_works) out = (out, Some TypeError) \<and>
   pyalex_script 1 untitled_page None =
     Some \<lparr>disk = Some [untitled_record],
           trace = [PrintStarting 0, Request ''*'', PrintSaved 1 1, PrintNoMorePages,
                    PrintFinished],
           raised = None\<rparr> \<and>
   analyze exact_ops [untitled_record] =
     \<lparr>scored = [work_record.extend untitled_record \<lparr>normalized_citation_score = Some (- 2022)\<rparr>],
      printed = [Heading],
      failed = Some TypeError\<rparr> \<and>
   (int_truediv fl 2025 2025 = Inr divided \<and> float_sub_int fl divided 2024 = Inr subtracted \<and>
    float_add_int fl subtracted 1 = Inr score \<longrightarrow>
      analyze fl [untitled_record] =
        \<lparr>scored = [work_record.extend untitled_record \<lparr>normalized_citation_score = Some score\<rparr>],
         printed = [Heading],
         failed = Some TypeError\<rparr>)"
  by (simp add: build_record_def pyalex_defs fixture_defs untitled_page_def untitled_record_def
      Let_def analyze_def citations_by_year_def add_citation_def mean_def median_of_def
      score_of_def gt_zero_def ranked_def exact_ops_def work_record.defs)

theorem C10_null_title_breaks_the_printing_witness:
  "title (build_record (work_of ''A'' 2020 1\<lparr>w_title := None\<rparr>)) = None \<and>
   print_works 1
     [work_record.extend untitled_record \<lparr>normalized_citation_score = Some (- 2022 :: rat)\<rparr>]
     [Heading] = ([Heading], Some TypeError) \<and>
   int_truediv exact_ops 2025 2025 = Inr 1 \<and>
   float_sub_int exact_ops 1 2024 = Inr (- 2023) \<and>
   float_add_int exact_ops (- 2023) 1 = Inr (- 2022) \<and>
   failed (analyze exact_ops [untitled_record]) = Some TypeError"
  using C10_null_title_breaks_the_printing
          [where work = "work_of ''A'' 2020 1" and i = 1
             and ranked_work =
               "work_record.extend untitled_record \<lparr>normalized_citation_score = Some (- 2022)\<rparr>"
             and ranked_works = "[]" and out = "[Heading]"
             and fl = exact_ops and divided = 1 and subtracted = "- 2023" and score = "- 2022"]
  by (simp add: untitled_record_def work_record.defs exact_ops_def)

end
